theory Spec2Isabelle
  imports Complex_Main "HOL-Library.Word"
begin

section \<open>The smart-follow reframing engine of app/engine.py\<close>

text \<open>
  This theory embeds \<^verbatim>\<open>smart_follow_crop\<close> and its helpers
  (\<^verbatim>\<open>_load_wav_rms_per_frame\<close>, \<^verbatim>\<open>_rms_threshold\<close>, \<^verbatim>\<open>_faces_detect\<close>,
  \<^verbatim>\<open>_mouth_motion_score\<close>, \<^verbatim>\<open>_pick_face\<close>) and proves properties of the tracking loop.

  Conventions of the embedding:
  \<^item> Python \<^verbatim>\<open>int\<close> is \<open>int\<close>; the frame counter, which starts at 0 and only counts up,
    is \<open>nat\<close>.
  \<^item> In the loop, Python and NumPy floating-point numbers are modelled as \<open>real\<close> with exact
    arithmetic: rounding error, infinities and NaN are outside that model. Where a statement
    depends on how a result is rounded it is made in a way that does not: the crop size is
    stated for the three aspect ratios the function names, and the candidate scorer is
    embedded a second time with its floating-point operations as parameters (\<open>float_ops\<close>),
    so that what is proved of it holds for every rounding, the exact one and that of the
    code's doubles alike.
  \<^item> A grayscale image is a list of rows of 8-bit pixels; WAV samples are 16-bit words read
    as signed integers.
  \<^item> What OpenCV, ffmpeg and the file system deliver (the opened capture, its properties and
    frames, the Haar detections on each frame, the extracted WAV file or the exception raised
    on the way to it, the result of muxing) is the record \<open>clip_env\<close>. Frames of one capture
    share one shape.
  \<^item> The calls that only move pixels are not modelled: the resize before detection, colour
    conversion, the crop slice, the resize of the crop to the output size and the write of the
    frame. In a real run each of them can raise (\<^verbatim>\<open>cv2.resize\<close> does on an empty crop or
    an empty detection image), so a result \<open>Inr\<close> of the model says that the modelled steps
    raise nothing, not that a real run reaches its end. The observable result of a run is
    the list of crop origins, one per frame.
  \<^item> Exceptions are values of type \<open>error\<close>, returned as \<open>Inl\<close>.
\<close>

subsection \<open>Python and NumPy primitives\<close>

datatype error = RuntimeError string | IndexError

text \<open>\<^verbatim>\<open>round(x)\<close> of Python 3 on a float: to the nearest integer, a tie to the even one.\<close>

definition py_round :: "real \<Rightarrow> int" where
  "py_round x =
     (let f = \<lfloor>x\<rfloor>; d = x - of_int f
      in if d < 1 / 2 then f else if 1 / 2 < d then f + 1 else if even f then f else f + 1)"

text \<open>\<^verbatim>\<open>int(x)\<close> on a float truncates towards zero.\<close>

definition py_int :: "real \<Rightarrow> int" where
  "py_int x = (if 0 \<le> x then \<lfloor>x\<rfloor> else \<lceil>x\<rceil>)"

text \<open>\<^verbatim>\<open>a[i]\<close> on a one-dimensional array: a negative index counts from the end, an index
  outside the array raises IndexError.\<close>

definition py_index :: "'a list \<Rightarrow> int \<Rightarrow> error + 'a" where
  "py_index a i =
     (if 0 \<le> i \<and> i < int (length a) then Inr (a ! nat i)
      else if i < 0 \<and> 0 \<le> int (length a) + i then Inr (a ! nat (int (length a) + i))
      else Inl IndexError)"

text \<open>\<^verbatim>\<open>a[lo:hi]\<close> for bounds that are not negative: the slice is cut at the end of the array.\<close>

definition py_slice :: "'a list \<Rightarrow> int \<Rightarrow> int \<Rightarrow> 'a list" where
  "py_slice a lo hi = take (nat hi - nat lo) (drop (nat lo) a)"

text \<open>\<^verbatim>\<open>np.clip(a, a_min, a_max)\<close> is \<^verbatim>\<open>minimum(a_max, maximum(a, a_min))\<close>.\<close>

definition np_clip :: "real \<Rightarrow> real \<Rightarrow> real \<Rightarrow> real" where
  "np_clip a a_min a_max = min a_max (max a a_min)"

definition np_mean :: "real list \<Rightarrow> real" where
  "np_mean xs = sum_list xs / real (length xs)"

text \<open>\<^verbatim>\<open>np.median\<close> and \<^verbatim>\<open>np.percentile\<close> (linear interpolation) on a non-empty array.\<close>

definition np_median :: "real list \<Rightarrow> real" where
  "np_median xs =
     (let s = sort xs; n = length s
      in if odd n then s ! (n div 2) else (s ! (n div 2 - 1) + s ! (n div 2)) / 2)"

definition np_percentile :: "real list \<Rightarrow> real \<Rightarrow> real" where
  "np_percentile xs q =
     (let s = sort xs; n = length s;
          pos = q / 100 * real (n - 1);
          lo = nat \<lfloor>pos\<rfloor>;
          hi = min (lo + 1) (n - 1)
      in s ! lo + (pos - real lo) * (s ! hi - s ! lo))"

subsection \<open>Data\<close>

type_synonym rect = "int \<times> int \<times> int \<times> int"
type_synonym face_box = "real \<times> real \<times> real \<times> real"
type_synonym image = "8 word list list"

text \<open>The keyword arguments of \<^verbatim>\<open>smart_follow_crop\<close> (the paths and the unused
  \<^verbatim>\<open>debug\<close> flag apart).\<close>

record params =
  out_w :: int
  out_h :: int
  target_aspect :: string
  sample_fps :: int
  smooth :: real
  hold_frames :: int
  mode :: string
  exclude_right_pct :: real
  deadzone_px :: int
  min_switch_frames :: int
  max_move_px_per_sec :: int

text \<open>One decoded frame: its grayscale picture and what the cascade classifiers return on
  its equalised, downscaled picture (frontal; profile; profile on the mirrored picture).\<close>

record frame =
  gray :: image
  frontal_det :: "rect list"
  profile_det :: "rect list"
  profile_flip_det :: "rect list"

record wav =
  wav_framerate :: int
  wav_samples :: "16 word list"

record clip_env =
  cap_opened :: bool
  cap_frame_width :: real
  cap_frame_height :: real
  cap_fps :: real
  cap_frames :: "frame list"
  writer_opened :: bool
  frontal_loaded :: bool
  profile_loaded :: bool
  audio :: "string + wav"
  mux_error :: "string option"

text \<open>The variables of \<^verbatim>\<open>smart_follow_crop\<close> that are fixed when the frame loop starts.\<close>

record clip_ctx =
  args :: params
  in_w :: int
  in_h :: int
  fps :: real
  crop_w :: int
  crop_h :: int
  step :: int
  scale :: real
  profile :: bool
  rms :: "real list option"
  thr :: "real option"

text \<open>The variables the frame loop updates.\<close>

record track_state =
  cx_s :: real
  cy_s :: real
  frame_idx :: nat
  last_det :: "(real \<times> real) option"
  hold :: int
  frames_since_switch :: int
  prev_gray_full :: "image option"

subsection \<open>Crop geometry\<close>

definition target_ratio :: "string \<Rightarrow> int \<Rightarrow> int \<Rightarrow> int \<Rightarrow> int \<Rightarrow> real" where
  "target_ratio aspect ow oh iw ih =
     (if aspect = ''9:16'' then 9 / 16
      else if aspect = ''1:1'' then 1
      else if aspect = ''16:9'' then 16 / 9
      else if oh \<noteq> 0 then real_of_int ow / real_of_int oh
      else real_of_int iw / real_of_int ih)"

text \<open>The pair \<open>(crop_w, crop_h)\<close>.\<close>

definition crop_size :: "real \<Rightarrow> int \<Rightarrow> int \<Rightarrow> int \<times> int" where
  "crop_size target_ar iw ih =
     (let in_ar = real_of_int iw / real_of_int ih
      in if in_ar > target_ar then (py_round (real_of_int ih * target_ar), ih)
         else (iw, py_round (real_of_int iw / target_ar)))"

definition sample_step :: "real \<Rightarrow> int \<Rightarrow> int" where
  "sample_step f sfps = max 1 (py_round (f / real_of_int (max 1 sfps)))"

subsection \<open>Audio activity\<close>

definition rms_chunk :: "real list \<Rightarrow> nat \<Rightarrow> nat \<Rightarrow> real" where
  "rms_chunk samples samples_per_frame i =
     (let a = i * samples_per_frame;
          b = min (length samples) (a + samples_per_frame);
          chunk = take (b - a) (drop a samples)
      in if chunk \<noteq> [] then sqrt (np_mean (map (\<lambda>v. v * v) chunk)) else 0)"

definition load_wav_rms_per_frame :: "wav \<Rightarrow> real \<Rightarrow> real list" where
  "load_wav_rms_per_frame wav_file f =
     (let sr = wav_framerate wav_file;
          samples = map (\<lambda>v. real_of_int (sint v) / 32768) (wav_samples wav_file)
      in if sr \<le> 0 \<or> f \<le> 0 then [0]
         else let samples_per_frame = py_int (real_of_int sr / f)
              in if samples_per_frame \<le> 0 then [0]
                 else let total_frames =
                            max 1 (py_int (real (length samples) / real_of_int samples_per_frame))
                      in map (rms_chunk samples (nat samples_per_frame)) [0 ..< nat total_frames])"

text \<open>\<^verbatim>\<open>_rms_threshold\<close> is only called on the array the loader returned, so its test for
  \<^verbatim>\<open>None\<close> has no counterpart here.\<close>

definition rms_threshold :: "real list \<Rightarrow> real" where
  "rms_threshold r =
     (if length r = 0 then 0.02
      else let med = np_median r; p90 = np_percentile r 90
           in max 0.015 (min 0.08 (med * 2.2 + p90 * 0.25)))"

subsection \<open>Subject detector\<close>

definition faces_detect :: "clip_ctx \<Rightarrow> frame \<Rightarrow> face_box list" where
  "faces_detect c fr =
     (let small_w = (if scale c \<noteq> 1 then py_int (real_of_int (in_w c) * scale c) else in_w c);
          faces =
            (if frontal_det fr = [] \<and> profile c
             then profile_det fr @
                  map (\<lambda>(x, y, w, h). (small_w - (x + w), y, w, h)) (profile_flip_det fr)
             else frontal_det fr);
          full_faces =
            map (\<lambda>(x, y, w, h).
                   if scale c \<noteq> 1
                   then (real_of_int x / scale c, real_of_int y / scale c,
                         real_of_int w / scale c, real_of_int h / scale c)
                   else (real_of_int x, real_of_int y, real_of_int w, real_of_int h)) faces
      in if exclude_right_pct (args c) > 0
         then let cutoff = real_of_int (in_w c) * (1 - exclude_right_pct (args c))
              in filter (\<lambda>(x, y, w, h). x + w / 2 < cutoff) full_faces
         else full_faces)"

subsection \<open>Candidate scorer\<close>

definition absdiff :: "8 word \<Rightarrow> 8 word \<Rightarrow> 8 word" where
  "absdiff a b = (if b \<le> a then a - b else b - a)"

definition slice2d :: "image \<Rightarrow> int \<Rightarrow> int \<Rightarrow> int \<Rightarrow> int \<Rightarrow> image" where
  "slice2d img r0 r1 c0 c1 = map (\<lambda>row. py_slice row c0 c1) (py_slice img r0 r1)"

definition mouth_motion_score :: "clip_ctx \<Rightarrow> image \<Rightarrow> image option \<Rightarrow> face_box \<Rightarrow> real" where
  "mouth_motion_score c gray_full prev face_box =
     (case prev of
        None \<Rightarrow> 0
      | Some prev_gray \<Rightarrow>
          (case face_box of (x, y, w, h) \<Rightarrow>
             let mx0 = py_int (max 0 x);
                 my0 = py_int (max 0 (y + h * 0.55));
                 mx1 = py_int (min (real_of_int (in_w c)) (x + w));
                 my1 = py_int (min (real_of_int (in_h c)) (y + h))
             in if mx1 \<le> mx0 \<or> my1 \<le> my0 then 0
                else let cur = slice2d gray_full my0 my1 mx0 mx1;
                         prv = slice2d prev_gray my0 my1 mx0 mx1
                     in if concat cur = [] \<or> concat prv = [] then 0
                        else np_mean (map (\<lambda>(p, q). real (unat (absdiff p q)))
                                          (zip (concat cur) (concat prv)))))"

definition face_center :: "face_box \<Rightarrow> real \<times> real" where
  "face_center fb = (case fb of (x, y, w, h) \<Rightarrow> (x + w / 2, y + h / 2))"

text \<open>The body of the loop of \<^verbatim>\<open>_pick_face\<close> up to the comparison: the score of one box.\<close>

definition face_score :: "clip_ctx \<Rightarrow> track_state \<Rightarrow> image \<Rightarrow> face_box \<Rightarrow> error + real" where
  "face_score c s gray_full fb =
     (case fb of (x, y, w, h) \<Rightarrow>
        let fx = x + w / 2;
            fy = y + h / 2;
            area = w * h;
            stability = 0.0008 * ((fx - cx_s s)\<^sup>2 + (fy - cy_s s)\<^sup>2)
        in if mode (args c) = ''speaker'' \<and> rms c \<noteq> None \<and> thr c \<noteq> None
           then let rms_idx = min (int (length (the (rms c))) - 1) (int (frame_idx s))
                in (case py_index (the (rms c)) rms_idx of
                      Inl e \<Rightarrow> Inl e
                    | Inr level \<Rightarrow>
                        let voiced = (level \<ge> the (thr c));
                            mot = mouth_motion_score c gray_full (prev_gray_full s) fb
                        in Inr (mot * (if voiced then 8 else 2) + area * 0.00002 - stability))
           else Inr (area - stability))"

fun pick_face_loop ::
  "clip_ctx \<Rightarrow> track_state \<Rightarrow> image \<Rightarrow> face_box list \<Rightarrow> (real \<times> real) option \<Rightarrow> real
     \<Rightarrow> error + (real \<times> real) option" where
  "pick_face_loop c s gray_full [] best best_score = Inr best"
| "pick_face_loop c s gray_full (fb # rest) best best_score =
     (case face_score c s gray_full fb of
        Inl e \<Rightarrow> Inl e
      | Inr score \<Rightarrow>
          if score > best_score
          then pick_face_loop c s gray_full rest (Some (face_center fb)) score
          else pick_face_loop c s gray_full rest best best_score)"

definition pick_face ::
  "clip_ctx \<Rightarrow> track_state \<Rightarrow> face_box list \<Rightarrow> image \<Rightarrow> error + (real \<times> real) option" where
  "pick_face c s full_faces gray_full = pick_face_loop c s gray_full full_faces None (- (10 ^ 18))"

subsection \<open>Stabiliser and frame loop\<close>

text \<open>The sampled-frame branch: detection, scoring and the decision to switch.\<close>

definition track_update :: "clip_ctx \<Rightarrow> track_state \<Rightarrow> frame \<Rightarrow> error + track_state" where
  "track_update c s fr =
     (if int (frame_idx s) mod step c = 0
      then let faces = faces_detect c fr
           in if faces \<noteq> [] \<and> hold s \<le> 0
              then (case pick_face c s faces (gray fr) of
                      Inl e \<Rightarrow> Inl e
                    | Inr candidate \<Rightarrow>
                        if candidate \<noteq> None
                           \<and> frames_since_switch s \<ge> min_switch_frames (args c)
                        then Inr (s\<lparr>last_det := candidate,
                                    hold := hold_frames (args c),
                                    frames_since_switch := 0\<rparr>)
                        else Inr s)
              else Inr (s\<lparr>hold := max 0 (hold s - 1)\<rparr>)
      else Inr s)"

text \<open>Deadzone, smoothing step and the clamp, for one axis: \<open>v\<close> is the smoothed
  coordinate and \<open>t\<close> the target's.\<close>

definition smooth_axis :: "clip_ctx \<Rightarrow> real \<Rightarrow> real \<Rightarrow> real" where
  "smooth_axis c v t =
     (let d = t - v;
          d = (if \<bar>d\<bar> < real_of_int (deadzone_px (args c)) then 0 else d);
          v1 = v + smooth (args c) * d;
          max_per_frame = real_of_int (max_move_px_per_sec (args c)) / max 1 (fps c)
      in np_clip v1 (v1 - max_per_frame) (v1 + max_per_frame))"

definition smooth_update :: "clip_ctx \<Rightarrow> track_state \<Rightarrow> track_state" where
  "smooth_update c s =
     (case last_det s of
        None \<Rightarrow> s
      | Some (tx, ty) \<Rightarrow> s\<lparr>cx_s := smooth_axis c (cx_s s) tx, cy_s := smooth_axis c (cy_s s) ty\<rparr>)"

definition crop_origin :: "clip_ctx \<Rightarrow> track_state \<Rightarrow> int \<times> int" where
  "crop_origin c s =
     (let x0 = py_round (cx_s s - real_of_int (crop_w c) / 2);
          y0 = py_round (cy_s s - real_of_int (crop_h c) / 2)
      in (max 0 (min (in_w c - crop_w c) x0), max 0 (min (in_h c - crop_h c) y0)))"

text \<open>One iteration of the \<^verbatim>\<open>while\<close> loop on a frame that was read.\<close>

definition process_frame ::
  "clip_ctx \<Rightarrow> track_state \<Rightarrow> frame \<Rightarrow> error + (track_state \<times> (int \<times> int))" where
  "process_frame c s fr =
     (case track_update c s fr of
        Inl e \<Rightarrow> Inl e
      | Inr s1 \<Rightarrow>
          let s2 = smooth_update c s1
          in Inr (s2\<lparr>prev_gray_full := Some (gray fr),
                    frame_idx := frame_idx s2 + 1,
                    frames_since_switch := frames_since_switch s2 + 1\<rparr>,
                  crop_origin c s2))"

fun frame_loop ::
  "clip_ctx \<Rightarrow> track_state \<Rightarrow> frame list \<Rightarrow> error + (track_state \<times> (int \<times> int) list)" where
  "frame_loop c s [] = Inr (s, [])"
| "frame_loop c s (fr # frs) =
     (case process_frame c s fr of
        Inl e \<Rightarrow> Inl e
      | Inr (s1, origin) \<Rightarrow>
          (case frame_loop c s1 frs of
             Inl e \<Rightarrow> Inl e
           | Inr (s2, origins) \<Rightarrow> Inr (s2, origin # origins)))"

subsection \<open>The whole function\<close>

text \<open>The \<^verbatim>\<open>try\<close> block of speaker mode: the mode, the RMS signal and the threshold after
  it. An exception on the way to the WAV data is the \<open>Inl\<close> of \<open>audio\<close>.\<close>

definition audio_setup ::
  "string \<Rightarrow> string + wav \<Rightarrow> real \<Rightarrow> string \<times> real list option \<times> real option" where
  "audio_setup m a f =
     (if m = ''speaker''
      then (case a of
              Inl e \<Rightarrow> (''face'', None, None)
            | Inr wav_file \<Rightarrow>
                let r = load_wav_rms_per_frame wav_file f
                in (m, Some r, Some (rms_threshold r)))
      else (m, None, None))"

definition initial_state :: "clip_ctx \<Rightarrow> track_state" where
  "initial_state c =
     \<lparr>cx_s = real_of_int (in_w c) / 2, cy_s = real_of_int (in_h c) / 2, frame_idx = 0,
      last_det = None, hold = 0, frames_since_switch = 999999, prev_gray_full = None\<rparr>"

text \<open>Everything before the loop: the checks that raise, the geometry, the audio analysis.\<close>

definition clip_setup :: "params \<Rightarrow> clip_env \<Rightarrow> error + clip_ctx" where
  "clip_setup p env =
     (let ow = (out_w p div 2) * 2;
          oh = (out_h p div 2) * 2
      in if \<not> cap_opened env then Inl (RuntimeError ''Could not open clip for smart crop'')
         else let iw = py_int (cap_frame_width env);
                  ih = py_int (cap_frame_height env);
                  f = (if cap_fps env = 0 then 30 else cap_fps env)
              in if iw \<le> 0 \<or> ih \<le> 0
                 then Inl (RuntimeError ''Invalid input dimensions for smart crop'')
                 else let target_ar = target_ratio (target_aspect p) ow oh iw ih;
                          (cw, ch) = crop_size target_ar iw ih
                      in if \<not> writer_opened env
                         then Inl (RuntimeError ''Could not open VideoWriter (mp4v).'')
                         else if \<not> frontal_loaded env
                         then Inl (RuntimeError ''Could not load OpenCV frontal face cascade.'')
                         else let (m, r, t) = audio_setup (mode p) (audio env) f
                              in Inr \<lparr>args = p\<lparr>out_w := ow, out_h := oh, mode := m\<rparr>,
                                      in_w = iw, in_h = ih, fps = f, crop_w = cw, crop_h = ch,
                                      step = sample_step f (sample_fps p),
                                      scale = (if iw > 640 then 640 / real_of_int iw else 1),
                                      profile = profile_loaded env, rms = r, thr = t\<rparr>)"

text \<open>The result of a run: the crop origin of every frame, or the exception raised.\<close>

definition smart_follow_crop :: "params \<Rightarrow> clip_env \<Rightarrow> error + (int \<times> int) list" where
  "smart_follow_crop p env =
     (case clip_setup p env of
        Inl e \<Rightarrow> Inl e
      | Inr c \<Rightarrow>
          (case frame_loop c (initial_state c) (cap_frames env) of
             Inl e \<Rightarrow> Inl e
           | Inr (s, origins) \<Rightarrow>
               (case mux_error env of
                  Some msg \<Rightarrow> Inl (RuntimeError msg)
                | None \<Rightarrow> Inr origins)))"

subsection \<open>Events and invariants of the loop\<close>

text \<open>The frame on which the loop reaches the assignment \<^verbatim>\<open>last_det = candidate\<close>: a sampled
  frame with detections, no hold pending, a candidate picked and enough frames since the last
  switch.\<close>

definition switch_accepted :: "clip_ctx \<Rightarrow> track_state \<Rightarrow> frame \<Rightarrow> bool" where
  "switch_accepted c s fr =
     (int (frame_idx s) mod step c = 0 \<and> faces_detect c fr \<noteq> [] \<and> hold s \<le> 0 \<and>
      (case pick_face c s (faces_detect c fr) (gray fr) of
         Inr (Some cand) \<Rightarrow> True
       | _ \<Rightarrow> False) \<and>
      frames_since_switch s \<ge> min_switch_frames (args c))"

text \<open>The RMS signal, when there is one, has at least one value.\<close>

definition rms_available :: "clip_ctx \<Rightarrow> bool" where
  "rms_available c = (case rms c of None \<Rightarrow> True | Some r \<Rightarrow> r \<noteq> [])"

text \<open>The voice-activity test of \<^verbatim>\<open>_pick_face\<close>: the RMS value of the frame, or the last
  one when the frame index is beyond the signal, reaches the threshold.\<close>

definition voiced :: "real list \<Rightarrow> real \<Rightarrow> nat \<Rightarrow> bool" where
  "voiced r t n = (r ! min (length r - 1) n \<ge> t)"

subsection \<open>Shape of the frames\<close>

text \<open>A picture has \<open>h\<close> rows of \<open>w\<close> pixels.\<close>

definition image_shape :: "image \<Rightarrow> int \<Rightarrow> int \<Rightarrow> bool" where
  "image_shape img h w = (int (length img) = h \<and> list_all (\<lambda>row. int (length row) = w) img)"

text \<open>The frame and the previous frame, when there is one, have the shape of the source.\<close>

definition frames_shaped :: "clip_ctx \<Rightarrow> track_state \<Rightarrow> image \<Rightarrow> bool" where
  "frames_shaped c s g =
     (image_shape g (in_h c) (in_w c) \<and>
      (case prev_gray_full s of None \<Rightarrow> True | Some pg \<Rightarrow> image_shape pg (in_h c) (in_w c)))"

subsection \<open>The candidate scorer over floating-point operations\<close>









subsection \<open>The candidate score as the specification words it\<close>




subsection \<open>Example inputs\<close>

text \<open>The default arguments of \<^verbatim>\<open>smart_follow_crop\<close>, a 1920x1080 clip at 30 frames per
  second, and the context the set-up computes for them in face mode.\<close>

definition default_params :: "string \<Rightarrow> params" where
  "default_params m =
     \<lparr>out_w = 1080, out_h = 1920, target_aspect = ''9:16'', sample_fps = 10, smooth = 0.18,
      hold_frames = 24, mode = m, exclude_right_pct = 0, deadzone_px = 28,
      min_switch_frames = 16, max_move_px_per_sec = 320\<rparr>"

definition hd_frame :: "rect list \<Rightarrow> frame" where
  "hd_frame dets =
     \<lparr>gray = replicate 1080 (replicate 1920 0), frontal_det = dets, profile_det = [],
      profile_flip_det = []\<rparr>"

definition hd_clip :: "string + wav \<Rightarrow> frame list \<Rightarrow> clip_env" where
  "hd_clip a frs =
     \<lparr>cap_opened = True, cap_frame_width = 1920, cap_frame_height = 1080, cap_fps = 30,
      cap_frames = frs, writer_opened = True, frontal_loaded = True, profile_loaded = True,
      audio = a, mux_error = None\<rparr>"

definition hd_ctx :: clip_ctx where
  "hd_ctx =
     \<lparr>args = default_params ''face'', in_w = 1920, in_h = 1080, fps = 30, crop_w = 608,
      crop_h = 1080, step = 3, scale = 1 / 3, profile = True, rms = None, thr = None\<rparr>"

text \<open>The same clip sampled on every frame, with a hold of one sample and switches at least
  two frames apart.\<close>

definition quick_ctx :: clip_ctx where
  "quick_ctx =
     hd_ctx\<lparr>args := (default_params ''face'')\<lparr>sample_fps := 30, hold_frames := 1,
                                                min_switch_frames := 2\<rparr>,
            step := 1\<rparr>"

definition quick_frames :: "frame list" where
  "quick_frames = [hd_frame [(450, 150, 60, 60)], hd_frame [], hd_frame [(100, 150, 60, 60)]]"

definition hd_state ::
  "real \<Rightarrow> nat \<Rightarrow> (real \<times> real) option \<Rightarrow> int \<Rightarrow> int \<Rightarrow> track_state" where
  "hd_state x n det h k =
     \<lparr>cx_s = x, cy_s = 540, frame_idx = n, last_det = det, hold = h, frames_since_switch = k,
      prev_gray_full = Some (replicate 1080 (replicate 1920 0))\<rparr>"

text \<open>An 8x8 clip in speaker mode at frame 6: a dark previous frame, a frame whose lower
  right corner changed, a frame whose left middle and lower right corner changed alike, and
  three boxes of which the last two are different boxes of one size.\<close>

definition tiny_ctx :: clip_ctx where
  "tiny_ctx =
     \<lparr>args = default_params ''speaker'', in_w = 8, in_h = 8, fps = 30, crop_w = 4, crop_h = 8,
      step = 3, scale = 1, profile = True, rms = Some [0.01, 0.05], thr = Some 0.0775\<rparr>"

definition tiny_dark :: image where
  "tiny_dark = [[0, 0, 0, 0, 0, 0, 0, 0], [0, 0, 0, 0, 0, 0, 0, 0], [0, 0, 0, 0, 0, 0, 0, 0],
                [0, 0, 0, 0, 0, 0, 0, 0], [0, 0, 0, 0, 0, 0, 0, 0], [0, 0, 0, 0, 0, 0, 0, 0],
                [0, 0, 0, 0, 0, 0, 0, 0], [0, 0, 0, 0, 0, 0, 0, 0]]"

definition tiny_lit :: image where
  "tiny_lit = [[0, 0, 0, 0, 0, 0, 0, 0], [0, 0, 0, 0, 0, 0, 0, 0], [0, 0, 0, 0, 0, 0, 0, 0],
               [0, 0, 0, 0, 0, 0, 0, 0], [0, 0, 0, 0, 0, 0, 0, 0], [0, 0, 0, 0, 0, 0, 0, 0],
               [0, 0, 0, 0, 10, 10, 10, 10], [0, 0, 0, 0, 10, 10, 10, 10]]"

definition tiny_state :: track_state where
  "tiny_state =
     \<lparr>cx_s = 4, cy_s = 4, frame_idx = 6, last_det = None, hold = 0,
      frames_since_switch = 1000005, prev_gray_full = Some tiny_dark\<rparr>"



text \<open>The default call with the output aspects "1:1" and, on a 1080x1920 source, "16:9".\<close>

definition square_ctx :: clip_ctx where
  "square_ctx =
     hd_ctx\<lparr>args := (default_params ''face'')\<lparr>target_aspect := ''1:1''\<rparr>, crop_w := 1080\<rparr>"

definition portrait_wide_ctx :: clip_ctx where
  "portrait_wide_ctx =
     \<lparr>args = (default_params ''face'')\<lparr>target_aspect := ''16:9''\<rparr>, in_w = 1080, in_h = 1920,
      fps = 30, crop_w = 1080, crop_h = 608, step = 3, scale = 16 / 27, profile = True,
      rms = None, thr = None\<rparr>"

text \<open>The default call with a negative pan speed, and with a negative hold duration sampled
  on every frame.\<close>

definition neg_move_ctx :: clip_ctx where
  "neg_move_ctx = hd_ctx\<lparr>args := (default_params ''face'')\<lparr>max_move_px_per_sec := - 30\<rparr>\<rparr>"

definition neg_hold_ctx :: clip_ctx where
  "neg_hold_ctx =
     hd_ctx\<lparr>args := (default_params ''face'')\<lparr>sample_fps := 30, hold_frames := - 5\<rparr>, step := 1\<rparr>"

text \<open>A call in face mode, sampled on every frame, with no hold and a smoothing factor of
  \<open>10 ^ 12\<close>.\<close>

definition runaway_params :: params where
  "runaway_params =
     \<lparr>out_w = 1080, out_h = 1920, target_aspect = ''9:16'', sample_fps = 30, smooth = 10 ^ 12,
      hold_frames = 0, mode = ''face'', exclude_right_pct = 0, deadzone_px = 28,
      min_switch_frames = 16, max_move_px_per_sec = 320\<rparr>"

definition runaway_ctx :: clip_ctx where
  "runaway_ctx = hd_ctx\<lparr>args := runaway_params, step := 1\<rparr>"

lemmas tiny_defs = tiny_ctx_def tiny_state_def tiny_dark_def tiny_lit_def
  default_params_def

lemmas eval_defs = clip_setup_def default_params_def hd_clip_def hd_frame_def hd_ctx_def
  quick_ctx_def quick_frames_def hd_state_def
  py_int_def py_round_def target_ratio_def crop_size_def sample_step_def audio_setup_def
  initial_state_def process_frame_def track_update_def faces_detect_def pick_face_def
  face_score_def face_center_def smooth_update_def smooth_axis_def np_clip_def crop_origin_def
  smart_follow_crop_def switch_accepted_def Let_def power2_eq_square

lemmas variant_defs = eval_defs neg_move_ctx_def neg_hold_ctx_def square_ctx_def
  portrait_wide_ctx_def runaway_params_def runaway_ctx_def

section \<open>Lemmas\<close>

subsection \<open>Rounding and geometry\<close>

lemma py_round_bounds: "\<lfloor>x\<rfloor> \<le> py_round x \<and> py_round x \<le> \<lceil>x\<rceil>"
  unfolding py_round_def Let_def by (auto simp: ceiling_def) linarith+

lemma py_round_le: "x \<le> real_of_int n \<Longrightarrow> py_round x \<le> n"
  using py_round_bounds [of x] by (meson ceiling_le order_trans)

lemma crop_size_fits:
  assumes "0 < iw" "0 < ih" "crop_size t iw ih = (cw, ch)"
  shows "cw \<le> iw \<and> ch \<le> ih"
proof (cases "real_of_int iw / real_of_int ih > t")
  case True
  then have "real_of_int ih * t < real_of_int iw"
    using assms(2) by (simp add: pos_less_divide_eq mult.commute)
  then have "py_round (real_of_int ih * t) \<le> iw" by (intro py_round_le) simp
  with True assms(3) show ?thesis by (auto simp: crop_size_def)
next
  case False
  then have le: "real_of_int iw / real_of_int ih \<le> t" by simp
  have "0 < real_of_int iw / real_of_int ih" using assms by simp
  with le have tpos: "0 < t" by linarith
  from le have "real_of_int iw \<le> t * real_of_int ih"
    using assms(2) by (simp add: pos_divide_le_eq)
  then have "real_of_int iw / t \<le> real_of_int ih"
    using tpos by (simp add: pos_divide_le_eq mult.commute)
  then have "py_round (real_of_int iw / t) \<le> ih" by (rule py_round_le)
  with False assms(3) show ?thesis by (auto simp: crop_size_def)
qed

lemma clip_setup_fields:
  assumes "clip_setup p env = Inr c"
  shows "in_w c = py_int (cap_frame_width env)"
    and "in_h c = py_int (cap_frame_height env)"
    and "0 < in_w c" and "0 < in_h c"
    and "(crop_w c, crop_h c) =
           crop_size (target_ratio (target_aspect p) (out_w p div 2 * 2) (out_h p div 2 * 2)
                        (in_w c) (in_h c)) (in_w c) (in_h c)"
    and "(mode (args c), rms c, thr c) =
           audio_setup (mode p) (audio env) (if cap_fps env = 0 then 30 else cap_fps env)"
    and "cap_opened env" and "writer_opened env" and "frontal_loaded env"
  using assms
  by (auto simp: clip_setup_def Let_def split: if_splits prod.splits)

lemma clip_setup_dims:
  assumes "clip_setup p env = Inr c"
  shows "0 < in_w c \<and> 0 < in_h c \<and> crop_w c \<le> in_w c \<and> crop_h c \<le> in_h c"
  using clip_setup_fields(3,4,5) [OF assms]
    crop_size_fits [of "in_w c" "in_h c" _ "crop_w c" "crop_h c"]
  by metis

lemma hd_setup: "clip_setup (default_params ''face'') (hd_clip a frs) = Inr hd_ctx"
  by (simp add: eval_defs)

lemma quick_setup:
  "clip_setup ((default_params ''face'')\<lparr>sample_fps := 30, hold_frames := 1,
                                             min_switch_frames := 2\<rparr>) (hd_clip a frs) =
     Inr quick_ctx"
  by (simp add: eval_defs)

subsection \<open>One frame\<close>

lemma smooth_update_keeps [simp]:
  "last_det (smooth_update c s) = last_det s"
  "hold (smooth_update c s) = hold s"
  "frames_since_switch (smooth_update c s) = frames_since_switch s"
  "frame_idx (smooth_update c s) = frame_idx s"
  by (simp_all add: smooth_update_def split: option.splits prod.splits)

lemma process_frame_Inr:
  assumes "process_frame c s fr = Inr (s', org)"
  obtains s1 where "track_update c s fr = Inr s1"
    and "s' = (smooth_update c s1)\<lparr>prev_gray_full := Some (gray fr),
                 frame_idx := frame_idx s1 + 1,
                 frames_since_switch := frames_since_switch s1 + 1\<rparr>"
    and "org = crop_origin c (smooth_update c s1)"
  using assms by (auto simp: process_frame_def Let_def split: sum.splits)

lemma track_update_accepted:
  assumes "switch_accepted c s fr"
  obtains cand where "pick_face c s (faces_detect c fr) (gray fr) = Inr (Some cand)"
    and "track_update c s fr =
           Inr (s\<lparr>last_det := Some cand, hold := hold_frames (args c), frames_since_switch := 0\<rparr>)"
  using assms
  by (auto simp: switch_accepted_def track_update_def Let_def split: sum.splits option.splits)

lemma track_update_rejected:
  assumes "\<not> switch_accepted c s fr" and "track_update c s fr = Inr s1"
  shows "s1 = s\<lparr>hold := (if int (frame_idx s) mod step c = 0
                            \<and> \<not> (faces_detect c fr \<noteq> [] \<and> hold s \<le> 0)
                         then max 0 (hold s - 1) else hold s)\<rparr>"
  using assms
  by (auto simp: switch_accepted_def track_update_def Let_def
           split: sum.splits option.splits if_splits)

lemma frames_since_switch_step:
  assumes "process_frame c s fr = Inr (s', org)"
  shows "frames_since_switch s' = (if switch_accepted c s fr then 0 else frames_since_switch s) + 1"
proof -
  from assms obtain s1 where t: "track_update c s fr = Inr s1"
    and s': "frames_since_switch s' = frames_since_switch s1 + 1"
    by (elim process_frame_Inr) simp
  show ?thesis
  proof (cases "switch_accepted c s fr")
    case True
    then obtain cand where
      "track_update c s fr =
         Inr (s\<lparr>last_det := Some cand, hold := hold_frames (args c), frames_since_switch := 0\<rparr>)"
      by (rule track_update_accepted)
    with t have "frames_since_switch s1 = 0" by auto
    with True s' show ?thesis by simp
  next
    case False
    from track_update_rejected [OF False t] s' show ?thesis using False by simp
  qed
qed

lemma hold_step:
  assumes "process_frame c s fr = Inr (s', org)"
  shows "hold s' =
           (if switch_accepted c s fr then hold_frames (args c)
            else if int (frame_idx s) mod step c = 0
                    \<and> \<not> (faces_detect c fr \<noteq> [] \<and> hold s \<le> 0)
            then max 0 (hold s - 1) else hold s)"
proof -
  from assms obtain s1 where t: "track_update c s fr = Inr s1" and h: "hold s' = hold s1"
    by (elim process_frame_Inr) simp
  show ?thesis
  proof (cases "switch_accepted c s fr")
    case True
    then obtain cand where
      "track_update c s fr =
         Inr (s\<lparr>last_det := Some cand, hold := hold_frames (args c), frames_since_switch := 0\<rparr>)"
      by (rule track_update_accepted)
    with t have "hold s1 = hold_frames (args c)" by auto
    with True h show ?thesis by simp
  next
    case False
    from track_update_rejected [OF False t] h False show ?thesis by simp
  qed
qed

lemma last_det_step:
  assumes "process_frame c s fr = Inr (s', org)"
  shows "(last_det s \<noteq> None \<longrightarrow> last_det s' \<noteq> None) \<and>
         (faces_detect c fr = [] \<longrightarrow> last_det s' = last_det s)"
proof -
  from assms obtain s1 where t: "track_update c s fr = Inr s1" and l: "last_det s' = last_det s1"
    by (elim process_frame_Inr) simp
  from t have "(last_det s \<noteq> None \<longrightarrow> last_det s1 \<noteq> None) \<and>
               (faces_detect c fr = [] \<longrightarrow> last_det s1 = last_det s)"
    by (auto simp: track_update_def Let_def split: if_splits sum.splits)
  with l show ?thesis by simp
qed

lemma no_detection_step:
  assumes "process_frame c s fr = Inr (s1, o1)" and "faces_detect c fr = []"
      and "last_det s = Some (tx, ty)"
  shows "last_det s1 = Some (tx, ty) \<and>
         cx_s s1 = smooth_axis c (cx_s s) tx \<and> cy_s s1 = smooth_axis c (cy_s s) ty"
proof -
  from assms(1) obtain s0 where t: "track_update c s fr = Inr s0"
    and s1: "s1 = (smooth_update c s0)\<lparr>prev_gray_full := Some (gray fr),
                 frame_idx := frame_idx s0 + 1,
                 frames_since_switch := frames_since_switch s0 + 1\<rparr>"
    by (rule process_frame_Inr)
  from t assms(2) have "last_det s0 = last_det s" "cx_s s0 = cx_s s" "cy_s s0 = cy_s s"
    by (auto simp: track_update_def Let_def split: if_splits)
  with assms(3) s1 show ?thesis by (simp add: smooth_update_def)
qed

lemma smooth_axis_unclamped:
  assumes "0 \<le> max_move_px_per_sec (args c)"
  shows "smooth_axis c v t =
           v + smooth (args c) *
                 (if \<bar>t - v\<bar> < real_of_int (deadzone_px (args c)) then 0 else t - v)"
proof -
  have "0 \<le> real_of_int (max_move_px_per_sec (args c)) / max 1 (fps c)"
    using assms by simp
  then show ?thesis
    by (simp add: smooth_axis_def np_clip_def Let_def min_def max_def)
qed

subsection \<open>Runs of the loop\<close>

lemma frame_loop_Cons:
  assumes "frame_loop c s (fr # frs) = Inr (s', origins)"
  obtains s1 o1 o2 where "process_frame c s fr = Inr (s1, o1)"
    and "frame_loop c s1 frs = Inr (s', o2)" and "origins = o1 # o2"
  using assms by (auto split: sum.splits prod.splits)

lemma frame_loop_append:
  "frame_loop c s (xs @ ys) =
     (case frame_loop c s xs of
        Inl e \<Rightarrow> Inl e
      | Inr (s1, o1) \<Rightarrow>
          (case frame_loop c s1 ys of
             Inl e \<Rightarrow> Inl e
           | Inr (s2, o2) \<Rightarrow> Inr (s2, o1 @ o2)))"
  by (induction xs arbitrary: s) (auto split: sum.splits prod.splits)

lemma frames_since_switch_run:
  assumes "frame_loop c s xs = Inr (s', origins)" and "0 \<le> frames_since_switch s"
  shows "0 \<le> frames_since_switch s' \<and>
         frames_since_switch s' \<le> frames_since_switch s + int (length xs)"
  using assms
proof (induction xs arbitrary: s origins)
  case Nil
  then show ?case by simp
next
  case (Cons fr frs)
  from Cons.prems(1) obtain s1 o1 o2 where p: "process_frame c s fr = Inr (s1, o1)"
    and r: "frame_loop c s1 frs = Inr (s', o2)"
    by (rule frame_loop_Cons)
  from frames_since_switch_step [OF p] Cons.prems(2)
  have "0 \<le> frames_since_switch s1" "frames_since_switch s1 \<le> frames_since_switch s + 1"
    by (auto split: if_splits)
  with Cons.IH [OF r] show ?case by auto
qed

lemma switch_gap:
  assumes i: "frame_loop c s0 (take i frs) = Inr (si, oi)"
      and j: "frame_loop c s0 (take j frs) = Inr (sj, oj)"
      and ij: "i < j" "j < length frs"
      and ai: "switch_accepted c si (frs ! i)"
      and aj: "switch_accepted c sj (frs ! j)"
  shows "min_switch_frames (args c) \<le> int (j - i)"
proof -
  let ?mid = "take (j - Suc i) (drop (Suc i) frs)"
  have split: "take j frs = take i frs @ (frs ! i) # ?mid"
  proof -
    have "take j frs = take i (take j frs) @ drop i (take j frs)"
      by (rule append_take_drop_id [symmetric])
    also have "take i (take j frs) = take i frs" using ij by (simp add: min_def)
    also have "drop i (take j frs) = take (j - i) (drop i frs)" by (simp add: drop_take)
    also have "drop i frs = (frs ! i) # drop (Suc i) frs"
      using ij by (simp add: Cons_nth_drop_Suc)
    also have "take (j - i) ((frs ! i) # drop (Suc i) frs) = (frs ! i) # ?mid"
    proof -
      from ij have "j - i = Suc (j - Suc i)" by simp
      then show ?thesis by simp
    qed
    finally show ?thesis .
  qed
  from j obtain o2 where rest: "frame_loop c si ((frs ! i) # ?mid) = Inr (sj, o2)"
    unfolding split frame_loop_append using i by (auto split: sum.splits prod.splits)
  then obtain s1 o1 o3 where p: "process_frame c si (frs ! i) = Inr (s1, o1)"
    and r: "frame_loop c s1 ?mid = Inr (sj, o3)"
    by (rule frame_loop_Cons)
  from frames_since_switch_step [OF p] ai have one: "frames_since_switch s1 = 1" by simp
  from frames_since_switch_run [OF r] one
  have "frames_since_switch sj \<le> 1 + int (length ?mid)" by simp
  also have "length ?mid = j - Suc i" using ij by simp
  finally have "frames_since_switch sj \<le> int (j - i)" using ij by simp
  moreover from aj have "min_switch_frames (args c) \<le> frames_since_switch sj"
    by (simp add: switch_accepted_def)
  ultimately show ?thesis by simp
qed

lemma last_det_run:
  assumes "frame_loop c s frs = Inr (s', origins)"
  shows "(last_det s \<noteq> None \<longrightarrow> last_det s' \<noteq> None) \<and>
         ((\<forall>fr \<in> set frs. faces_detect c fr = []) \<longrightarrow> last_det s' = last_det s)"
  using assms
proof (induction frs arbitrary: s origins)
  case Nil
  then show ?case by simp
next
  case (Cons fr frs)
  from Cons.prems obtain s1 o1 o2 where p: "process_frame c s fr = Inr (s1, o1)"
    and r: "frame_loop c s1 frs = Inr (s', o2)"
    by (rule frame_loop_Cons)
  from last_det_step [OF p] Cons.IH [OF r] show ?case by auto
qed

lemma hold_nonneg_run:
  assumes "frame_loop c s frs = Inr (s', origins)"
      and "0 \<le> hold_frames (args c)" and "0 \<le> hold s"
  shows "0 \<le> hold s'"
  using assms
proof (induction frs arbitrary: s origins)
  case Nil
  then show ?case by simp
next
  case (Cons fr frs)
  from Cons.prems(1) obtain s1 o1 o2 where p: "process_frame c s fr = Inr (s1, o1)"
    and r: "frame_loop c s1 frs = Inr (s', o2)"
    by (rule frame_loop_Cons)
  from hold_step [OF p] Cons.prems(2,3) have "0 \<le> hold s1" by (auto split: if_splits)
  from Cons.IH [OF r Cons.prems(2) this] show ?case .
qed

subsection \<open>Evaluated steps of the example clips\<close>

lemma hd_step0:
  "process_frame hd_ctx (initial_state hd_ctx) (hd_frame [(450, 150, 60, 60)]) =
     Inr (hd_state 1046.4 1 (Some (1440, 540)) 24 1, (742, 0))"
  by (simp add: eval_defs)

lemma hd_step1:
  "process_frame hd_ctx (hd_state 1046.4 1 (Some (1440, 540)) 24 1) (hd_frame []) =
     Inr (hd_state 1117.248 2 (Some (1440, 540)) 24 2, (813, 0))"
  by (simp add: eval_defs)

lemma quick_step0:
  "process_frame quick_ctx (initial_state quick_ctx) (hd_frame [(450, 150, 60, 60)]) =
     Inr (hd_state 1046.4 1 (Some (1440, 540)) 1 1, (742, 0))"
  by (simp add: eval_defs)

lemma quick_step1:
  "process_frame quick_ctx (hd_state 1046.4 1 (Some (1440, 540)) 1 1) (hd_frame []) =
     Inr (hd_state 1117.248 2 (Some (1440, 540)) 0 2, (813, 0))"
  by (simp add: eval_defs)

lemma quick_step2:
  "process_frame quick_ctx (hd_state 1117.248 2 (Some (1440, 540)) 0 2)
     (hd_frame [(100, 150, 60, 60)]) =
     Inr (hd_state 986.34336 3 (Some (390, 540)) 1 1, (682, 0))"
  by (simp add: eval_defs)

lemma quick_accept0:
  "switch_accepted quick_ctx (initial_state quick_ctx) (hd_frame [(450, 150, 60, 60)])"
  by (simp add: eval_defs)

lemma quick_accept2:
  "switch_accepted quick_ctx (hd_state 1117.248 2 (Some (1440, 540)) 0 2)
     (hd_frame [(100, 150, 60, 60)])"
  by (simp add: eval_defs)

lemma quick_run1:
  "frame_loop quick_ctx (initial_state quick_ctx) [hd_frame [(450, 150, 60, 60)]] =
     Inr (hd_state 1046.4 1 (Some (1440, 540)) 1 1, [(742, 0)])"
  by (simp only: frame_loop.simps quick_step0 sum.case prod.case)

lemma quick_run2:
  "frame_loop quick_ctx (initial_state quick_ctx) (take 2 quick_frames) =
     Inr (hd_state 1117.248 2 (Some (1440, 540)) 0 2, [(742, 0), (813, 0)])"
proof -
  have "take 2 quick_frames = [hd_frame [(450, 150, 60, 60)], hd_frame []]"
    by (simp add: quick_frames_def)
  then show ?thesis
    by (simp only: frame_loop.simps quick_step0 quick_step1 sum.case prod.case)
qed

lemma square_setup:
  "clip_setup ((default_params ''face'')\<lparr>target_aspect := ''1:1''\<rparr>) (hd_clip a frs) = Inr square_ctx"
  by (simp add: variant_defs)

lemma portrait_wide_setup:
  "clip_setup ((default_params ''face'')\<lparr>target_aspect := ''16:9''\<rparr>)
     ((hd_clip a frs)\<lparr>cap_frame_width := 1080, cap_frame_height := 1920\<rparr>) = Inr portrait_wide_ctx"
  by (simp add: variant_defs)

lemma neg_move_setup:
  "clip_setup ((default_params ''face'')\<lparr>max_move_px_per_sec := - 30\<rparr>) (hd_clip a frs) =
     Inr neg_move_ctx"
  by (simp add: variant_defs)

lemma neg_hold_setup:
  "clip_setup ((default_params ''face'')\<lparr>sample_fps := 30, hold_frames := - 5\<rparr>) (hd_clip a frs) =
     Inr neg_hold_ctx"
  by (simp add: variant_defs)

lemma hd_step0_low:
  "process_frame hd_ctx (initial_state hd_ctx) (hd_frame [(450, 157, 60, 60)]) =
     Inr (hd_state 1046.4 1 (Some (1440, 561)) 24 1, (742, 0))"
  by (simp add: variant_defs)

lemma neg_move_step0:
  "process_frame neg_move_ctx (initial_state neg_move_ctx) (hd_frame [(450, 157, 60, 60)]) =
     Inr (\<lparr>cx_s = 1045.4, cy_s = 539, frame_idx = 1, last_det = Some (1440, 561), hold = 24,
           frames_since_switch = 1,
           prev_gray_full = Some (replicate 1080 (replicate 1920 0))\<rparr>, (741, 0))"
  by (simp add: variant_defs)

lemma neg_hold_step0:
  "process_frame neg_hold_ctx (initial_state neg_hold_ctx) (hd_frame [(450, 150, 60, 60)]) =
     Inr (hd_state 1046.4 1 (Some (1440, 540)) (- 5) 1, (742, 0))"
  by (simp add: variant_defs)

lemma neg_hold_step1:
  "process_frame neg_hold_ctx (hd_state 1046.4 1 (Some (1440, 540)) (- 5) 1)
     (hd_frame [(450, 150, 60, 60)]) =
     Inr (hd_state 1117.248 2 (Some (1440, 540)) (- 5) 2, (813, 0))"
  by (simp add: variant_defs)

lemma neg_hold_reject1:
  "\<not> switch_accepted neg_hold_ctx (hd_state 1046.4 1 (Some (1440, 540)) (- 5) 1)
       (hd_frame [(450, 150, 60, 60)])"
  by (simp add: variant_defs)





subsection \<open>Audio lookup and absence of errors\<close>

lemma load_wav_rms_nonempty: "load_wav_rms_per_frame wav_file f \<noteq> []"
  by (simp add: load_wav_rms_per_frame_def Let_def)

lemma rms_lookup:
  assumes "r \<noteq> []"
  shows "0 \<le> min (int (length r) - 1) (int n) \<and> min (int (length r) - 1) (int n) < int (length r) \<and>
         py_index r (min (int (length r) - 1) (int n)) = Inr (r ! min (length r - 1) n)"
proof -
  from assms have len: "0 < length r" by simp
  then have "nat (min (int (length r) - 1) (int n)) = min (length r - 1) n" by arith
  with len show ?thesis by (simp add: py_index_def)
qed

lemma face_score_speaker:
  assumes "mode (args c) = ''speaker''" "rms c = Some r" "thr c = Some t" "r \<noteq> []"
  shows "face_score c s g (x, y, w, h) =
           Inr (mouth_motion_score c g (prev_gray_full s) (x, y, w, h)
                  * (if voiced r t (frame_idx s) then 8 else 2)
                + w * h * 0.00002
                - 0.0008 * ((x + w / 2 - cx_s s)\<^sup>2 + (y + h / 2 - cy_s s)\<^sup>2))"
  using assms rms_lookup [OF assms(4), of "frame_idx s"]
  by (simp add: face_score_def Let_def voiced_def)

lemma face_score_face:
  assumes "\<not> (mode (args c) = ''speaker'' \<and> rms c \<noteq> None \<and> thr c \<noteq> None)"
  shows "face_score c s g (x, y, w, h) =
           Inr (w * h - 0.0008 * ((x + w / 2 - cx_s s)\<^sup>2 + (y + h / 2 - cy_s s)\<^sup>2))"
  using assms by (auto simp: face_score_def Let_def)

lemma face_score_ok:
  assumes "rms_available c"
  shows "\<exists>v. face_score c s g fb = Inr v"
proof (cases "mode (args c) = ''speaker'' \<and> rms c \<noteq> None \<and> thr c \<noteq> None")
  case True
  then obtain r t where "rms c = Some r" "thr c = Some t" by auto
  moreover with assms have "r \<noteq> []" by (simp add: rms_available_def)
  ultimately show ?thesis using True face_score_speaker by (cases fb) fastforce
next
  case False
  then show ?thesis using face_score_face by (cases fb) fastforce
qed

lemma pick_face_loop_ok:
  assumes "rms_available c"
  shows "\<exists>b. pick_face_loop c s g fs best bs = Inr b"
proof (induction fs arbitrary: best bs)
  case Nil
  then show ?case by simp
next
  case (Cons fb fs)
  from face_score_ok [OF assms] obtain v where "face_score c s g fb = Inr v" by blast
  with Cons.IH show ?case by simp
qed

lemma track_update_ok:
  assumes "rms_available c"
  shows "\<exists>s1. track_update c s fr = Inr s1"
proof -
  from pick_face_loop_ok [OF assms]
  obtain b where "pick_face c s (faces_detect c fr) (gray fr) = Inr b"
    unfolding pick_face_def by blast
  then show ?thesis by (simp add: track_update_def Let_def)
qed

lemma process_frame_ok:
  assumes "rms_available c"
  shows "\<exists>s' org. process_frame c s fr = Inr (s', org)"
proof -
  from track_update_ok [OF assms] obtain s1 where "track_update c s fr = Inr s1" by blast
  then show ?thesis by (simp add: process_frame_def Let_def)
qed

lemma frame_loop_ok:
  assumes "rms_available c"
  shows "\<exists>s' origins. frame_loop c s frs = Inr (s', origins) \<and> length origins = length frs"
proof (induction frs arbitrary: s)
  case Nil
  then show ?case by simp
next
  case (Cons fr frs)
  from process_frame_ok [OF assms] obtain s1 org where p: "process_frame c s fr = Inr (s1, org)"
    by blast
  from Cons.IH obtain s2 os where "frame_loop c s1 frs = Inr (s2, os)" "length os = length frs"
    by blast
  with p show ?case by simp
qed

lemma audio_setup_cases:
  assumes "audio_setup m a f = (m', r, t)"
  shows "(r = None \<and> t = None) \<or> (\<exists>w. a = Inr w \<and> m = ''speaker'' \<and> m' = ''speaker'' \<and>
            r = Some (load_wav_rms_per_frame w f) \<and> t = Some (rms_threshold (load_wav_rms_per_frame w f)))"
  using assms by (auto simp: audio_setup_def Let_def split: if_splits sum.splits)

lemma clip_setup_rms_available:
  assumes "clip_setup p env = Inr c"
  shows "rms_available c"
proof -
  from clip_setup_fields(6) [OF assms] audio_setup_cases
  have "rms c = None \<or> (\<exists>w f. rms c = Some (load_wav_rms_per_frame w f))"
    by (metis (no_types))
  then show ?thesis
    by (auto simp: rms_available_def load_wav_rms_nonempty)
qed

lemma smart_follow_crop_no_IndexError: "smart_follow_crop p env \<noteq> Inl IndexError"
proof (cases "clip_setup p env")
  case (Inl e)
  then have "e \<noteq> IndexError"
    by (auto simp: clip_setup_def Let_def split: if_splits prod.splits)
  with Inl show ?thesis by (simp add: smart_follow_crop_def)
next
  case (Inr c)
  from frame_loop_ok [OF clip_setup_rms_available [OF Inr]]
  obtain s' origins where "frame_loop c (initial_state c) (cap_frames env) = Inr (s', origins)"
    by blast
  with Inr show ?thesis by (simp add: smart_follow_crop_def split: option.splits)
qed

lemma clip_setup_succeeds:
  assumes "cap_opened env" "0 < py_int (cap_frame_width env)" "0 < py_int (cap_frame_height env)"
    "writer_opened env" "frontal_loaded env"
  shows "\<exists>c. clip_setup p env = Inr c"
  using assms by (simp add: clip_setup_def Let_def split: prod.splits)

lemma clip_setup_degrade:
  assumes "mode p = ''speaker''" "audio env = Inl e"
  shows "clip_setup p env = clip_setup (p\<lparr>mode := ''face''\<rparr>) env"
proof -
  have a: "audio_setup (mode p) (audio env) f = (''face'', None, None)"
    and b: "audio_setup ''face'' (audio env) f = (''face'', None, None)" for f
    using assms by (simp_all add: audio_setup_def)
  show ?thesis by (simp add: clip_setup_def a b Let_def split: prod.splits)
qed

lemma face_setup_ignores_audio:
  "clip_setup (p\<lparr>mode := ''face''\<rparr>) (env\<lparr>audio := a\<rparr>) = clip_setup (p\<lparr>mode := ''face''\<rparr>) env"
  by (simp add: clip_setup_def audio_setup_def Let_def split: prod.splits)

lemma face_run_ignores_audio:
  "smart_follow_crop (p\<lparr>mode := ''face''\<rparr>) (env\<lparr>audio := a\<rparr>) =
     smart_follow_crop (p\<lparr>mode := ''face''\<rparr>) env"
  by (simp add: smart_follow_crop_def face_setup_ignores_audio split: sum.splits)

lemma hd_setup_speaker:
  "clip_setup (default_params ''speaker'') (hd_clip (Inl e) frs) = Inr hd_ctx"
  by (simp add: eval_defs)

lemma hd_run1:
  "frame_loop hd_ctx (initial_state hd_ctx) [hd_frame [(450, 150, 60, 60)]] =
     Inr (hd_state 1046.4 1 (Some (1440, 540)) 24 1, [(742, 0)])"
  by (simp only: frame_loop.simps hd_step0 sum.case prod.case)

subsection \<open>Candidate scoring\<close>






lemma tiny_threshold: "rms_threshold [0.01, 0.05] = 0.0775"
  by (simp add: rms_threshold_def np_median_def np_percentile_def Let_def)


lemma tiny_shaped: "frames_shaped tiny_ctx tiny_state tiny_lit"
  by (simp add: frames_shaped_def image_shape_def tiny_defs)


lemma tiny_mouth_motion:
  "mouth_motion_score tiny_ctx tiny_lit (prev_gray_full tiny_state) (4, 4, 4, 4) = 10"
  by (simp add: mouth_motion_score_def slice2d_def py_slice_def np_mean_def absdiff_def
        py_int_def Let_def tiny_defs)

subsection \<open>The scorer over floating-point operations\<close>

















section \<open>Claims\<close>

subsection \<open>Crop geometry\<close>

text \<open>
  C4. When the set-up succeeds the source dimensions are positive, and for each of the three
  target aspects the function names, "9:16" with the ratio 9/16, "1:1" with the ratio 1 and
  "16:9" with the ratio 16/9, the crop size is fixed as follows: if source width / source
  height exceeds the ratio, the crop height is the source height and the crop width is the
  source height times the ratio, rounded; otherwise the crop width is the source width and
  the crop height is the source width divided by the ratio, rounded. For a 1920x1080 source
  and target aspect "9:16" the crop is 608 wide and 1080 high. (\<open>py_round\<close> is Python's
  \<^verbatim>\<open>round\<close>. For any other aspect string the ratio is a quotient of the output sizes
  taken in double precision, whose rounding the exact quotient does not reproduce; the
  statement is made for the three named aspects.)
\<close>

theorem crop_size_from_aspect:
  assumes "clip_setup p env = Inr c"
  shows "0 < in_w c \<and> 0 < in_h c \<and>
         (target_aspect p = ''9:16'' \<longrightarrow>
            (if real_of_int (in_w c) / real_of_int (in_h c) > 9 / 16
             then crop_h c = in_h c \<and> crop_w c = py_round (real_of_int (in_h c) * (9 / 16))
             else crop_w c = in_w c \<and> crop_h c = py_round (real_of_int (in_w c) / (9 / 16)))) \<and>
         (target_aspect p = ''1:1'' \<longrightarrow>
            (if real_of_int (in_w c) / real_of_int (in_h c) > 1
             then crop_h c = in_h c \<and> crop_w c = py_round (real_of_int (in_h c) * 1)
             else crop_w c = in_w c \<and> crop_h c = py_round (real_of_int (in_w c) / 1))) \<and>
         (target_aspect p = ''16:9'' \<longrightarrow>
            (if real_of_int (in_w c) / real_of_int (in_h c) > 16 / 9
             then crop_h c = in_h c \<and> crop_w c = py_round (real_of_int (in_h c) * (16 / 9))
             else crop_w c = in_w c \<and> crop_h c = py_round (real_of_int (in_w c) / (16 / 9)))) \<and>
         (target_aspect p = ''9:16'' \<and> in_w c = 1920 \<and> in_h c = 1080
            \<longrightarrow> crop_w c = 608 \<and> crop_h c = 1080)"
proof -
  let ?t = "target_ratio (target_aspect p) (out_w p div 2 * 2) (out_h p div 2 * 2)
              (in_w c) (in_h c)"
  from clip_setup_fields(5) [OF assms]
  have size: "(crop_w c, crop_h c) = crop_size ?t (in_w c) (in_h c)" .
  have branch:
    "if real_of_int (in_w c) / real_of_int (in_h c) > t
     then crop_h c = in_h c \<and> crop_w c = py_round (real_of_int (in_h c) * t)
     else crop_w c = in_w c \<and> crop_h c = py_round (real_of_int (in_w c) / t)"
    if "?t = t" for t
    using size that by (auto simp: crop_size_def Let_def split: if_splits)
  have tall: "target_aspect p = ''9:16'' \<Longrightarrow> ?t = 9 / 16"
    and square: "target_aspect p = ''1:1'' \<Longrightarrow> ?t = 1"
    and wide: "target_aspect p = ''16:9'' \<Longrightarrow> ?t = 16 / 9"
    by (simp_all add: target_ratio_def)
  have particular: "crop_w c = 608 \<and> crop_h c = 1080"
    if "target_aspect p = ''9:16''" "in_w c = 1920" "in_h c = 1080"
    using size that by (simp add: crop_size_def target_ratio_def py_round_def Let_def)
  from clip_setup_fields(3,4) [OF assms] branch [OF tall] branch [OF square] branch [OF wide]
    particular
  show ?thesis by (intro conjI impI) blast+
qed

theorem crop_size_from_aspect_witness:
  "clip_setup (default_params ''face'') (hd_clip (Inl ''no audio'') []) = Inr hd_ctx \<and>
   target_aspect (default_params ''face'') = ''9:16'' \<and>
   in_w hd_ctx = 1920 \<and> in_h hd_ctx = 1080 \<and> crop_w hd_ctx = 608 \<and> crop_h hd_ctx = 1080 \<and>
   clip_setup ((default_params ''face'')\<lparr>target_aspect := ''1:1''\<rparr>)
     (hd_clip (Inl ''no audio'') []) = Inr square_ctx \<and>
   in_w square_ctx = 1920 \<and> in_h square_ctx = 1080 \<and>
   crop_w square_ctx = 1080 \<and> crop_h square_ctx = 1080 \<and>
   clip_setup ((default_params ''face'')\<lparr>target_aspect := ''16:9''\<rparr>)
     ((hd_clip (Inl ''no audio'') [])\<lparr>cap_frame_width := 1080, cap_frame_height := 1920\<rparr>) =
     Inr portrait_wide_ctx \<and>
   in_w portrait_wide_ctx = 1080 \<and> in_h portrait_wide_ctx = 1920 \<and>
   crop_w portrait_wide_ctx = 1080 \<and> crop_h portrait_wide_ctx = 608"
proof -
  have s: "clip_setup (default_params ''face'') (hd_clip (Inl ''no audio'') []) = Inr hd_ctx"
    by (rule hd_setup)
  have a: "target_aspect (default_params ''face'') = ''9:16''"
    "in_w hd_ctx = 1920" "in_h hd_ctx = 1080"
    by (simp_all add: default_params_def hd_ctx_def)
  from crop_size_from_aspect [OF s] a have r1: "crop_w hd_ctx = 608 \<and> crop_h hd_ctx = 1080"
    by blast
  have s2: "clip_setup ((default_params ''face'')\<lparr>target_aspect := ''1:1''\<rparr>)
              (hd_clip (Inl ''no audio'') []) = Inr square_ctx"
    by (rule square_setup)
  have a2: "target_aspect ((default_params ''face'')\<lparr>target_aspect := ''1:1''\<rparr>) = ''1:1''"
    "in_w square_ctx = 1920" "in_h square_ctx = 1080"
    by (simp_all add: square_ctx_def hd_ctx_def)
  from crop_size_from_aspect [OF s2, THEN conjunct2, THEN conjunct2, THEN conjunct2,
      THEN conjunct1, rule_format, OF a2(1)]
  have r2: "crop_w square_ctx = 1080 \<and> crop_h square_ctx = 1080"
    by (simp add: a2 py_round_def)
  have s3: "clip_setup ((default_params ''face'')\<lparr>target_aspect := ''16:9''\<rparr>)
              ((hd_clip (Inl ''no audio'') [])\<lparr>cap_frame_width := 1080,
                                                  cap_frame_height := 1920\<rparr>) =
              Inr portrait_wide_ctx"
    by (rule portrait_wide_setup)
  have a3: "target_aspect ((default_params ''face'')\<lparr>target_aspect := ''16:9''\<rparr>) = ''16:9''"
    "in_w portrait_wide_ctx = 1080" "in_h portrait_wide_ctx = 1920"
    by (simp_all add: portrait_wide_ctx_def)
  from crop_size_from_aspect [OF s3, THEN conjunct2, THEN conjunct2, THEN conjunct2,
      THEN conjunct2, THEN conjunct1, rule_format, OF a3(1)]
  have r3: "crop_w portrait_wide_ctx = 1080 \<and> crop_h portrait_wide_ctx = 608"
    by (simp add: a3 py_round_def)
  from s a r1 s2 a2(2,3) r2 s3 a3(2,3) r3 show ?thesis by (intro conjI) simp_all
qed

text \<open>
  C2. For every frame the loop processes after a successful set-up (so with positive source
  width and height), whatever the tracking state, the crop origin \<open>(x0, y0)\<close> satisfies
  \<open>0 \<le> x0 \<le> in_w - crop_w\<close> and \<open>0 \<le> y0 \<le> in_h - crop_h\<close>: the crop rectangle lies inside
  the source frame.
\<close>

theorem crop_origin_inside_source:
  assumes "clip_setup p env = Inr c" and "process_frame c s fr = Inr (s', (x0, y0))"
  shows "0 \<le> x0 \<and> x0 \<le> in_w c - crop_w c \<and> 0 \<le> y0 \<and> y0 \<le> in_h c - crop_h c"
proof -
  from assms(2) obtain s1 where "(x0, y0) = crop_origin c (smooth_update c s1)"
    by (rule process_frame_Inr)
  then have "x0 = max 0 (min (in_w c - crop_w c)
                     (py_round (cx_s (smooth_update c s1) - real_of_int (crop_w c) / 2)))"
    and "y0 = max 0 (min (in_h c - crop_h c)
                     (py_round (cy_s (smooth_update c s1) - real_of_int (crop_h c) / 2)))"
    by (simp_all add: crop_origin_def Let_def)
  with clip_setup_dims [OF assms(1)] show ?thesis by auto
qed

theorem crop_origin_inside_source_witness:
  "clip_setup (default_params ''face'')
     (hd_clip (Inl ''no audio'') [hd_frame [(450, 150, 60, 60)]]) = Inr hd_ctx \<and>
   process_frame hd_ctx (initial_state hd_ctx) (hd_frame [(450, 150, 60, 60)]) =
     Inr (hd_state 1046.4 1 (Some (1440, 540)) 24 1, (742, 0)) \<and>
   (0::int) \<le> 742 \<and> 742 \<le> in_w hd_ctx - crop_w hd_ctx \<and>
   (0::int) \<le> 0 \<and> 0 \<le> in_h hd_ctx - crop_h hd_ctx"
proof -
  have s: "clip_setup (default_params ''face'')
             (hd_clip (Inl ''no audio'') [hd_frame [(450, 150, 60, 60)]]) = Inr hd_ctx"
    by (rule hd_setup)
  from crop_origin_inside_source [OF s hd_step0] s hd_step0 show ?thesis by simp
qed

subsection \<open>Stabiliser\<close>

text \<open>
  C3. Along any run of the loop, at the frame with index \<open>j\<close>: a switch of the tracked target
  is accepted only when \<open>frames_since_switch\<close> is at least \<open>min_switch_frames\<close>; a frame without
  an accepted switch leaves the tracked target as it was; after the frame the counter is
  0 + 1 when a switch was accepted and its old value + 1 otherwise; and an earlier frame
  \<open>i\<close> of the same run with an accepted switch lies at least \<open>min_switch_frames\<close> frames
  before \<open>j\<close>.
\<close>

theorem switch_rate_limited:
  assumes "frame_loop c s0 (take j frs) = Inr (sj, oj)" and "j < length frs"
      and "process_frame c sj (frs ! j) = Inr (s', org)"
  shows "(switch_accepted c sj (frs ! j) \<longrightarrow> min_switch_frames (args c) \<le> frames_since_switch sj) \<and>
         (\<not> switch_accepted c sj (frs ! j) \<longrightarrow> last_det s' = last_det sj) \<and>
         frames_since_switch s' =
           (if switch_accepted c sj (frs ! j) then 0 else frames_since_switch sj) + 1 \<and>
         (\<forall>i si oi. i < j \<and> frame_loop c s0 (take i frs) = Inr (si, oi)
                      \<and> switch_accepted c si (frs ! i) \<and> switch_accepted c sj (frs ! j)
            \<longrightarrow> min_switch_frames (args c) \<le> int (j - i))"
proof -
  have a: "switch_accepted c sj (frs ! j) \<longrightarrow> min_switch_frames (args c) \<le> frames_since_switch sj"
    by (simp add: switch_accepted_def)
  have b: "\<not> switch_accepted c sj (frs ! j) \<longrightarrow> last_det s' = last_det sj"
  proof
    assume n: "\<not> switch_accepted c sj (frs ! j)"
    from assms(3) obtain s1 where t: "track_update c sj (frs ! j) = Inr s1"
      and l: "last_det s' = last_det s1"
      by (elim process_frame_Inr) simp
    from track_update_rejected [OF n t] l show "last_det s' = last_det sj" by simp
  qed
  have d: "\<forall>i si oi. i < j \<and> frame_loop c s0 (take i frs) = Inr (si, oi)
                      \<and> switch_accepted c si (frs ! i) \<and> switch_accepted c sj (frs ! j)
            \<longrightarrow> min_switch_frames (args c) \<le> int (j - i)"
    using switch_gap [OF _ assms(1) _ assms(2)] by blast
  from a b frames_since_switch_step [OF assms(3)] d show ?thesis by blast
qed

theorem switch_rate_limited_witness:
  "frame_loop quick_ctx (initial_state quick_ctx) (take 2 quick_frames) =
     Inr (hd_state 1117.248 2 (Some (1440, 540)) 0 2, [(742, 0), (813, 0)]) \<and>
   2 < length quick_frames \<and>
   process_frame quick_ctx (hd_state 1117.248 2 (Some (1440, 540)) 0 2) (quick_frames ! 2) =
     Inr (hd_state 986.34336 3 (Some (390, 540)) 1 1, (682, 0)) \<and>
   frame_loop quick_ctx (initial_state quick_ctx) (take 0 quick_frames) =
     Inr (initial_state quick_ctx, []) \<and>
   switch_accepted quick_ctx (initial_state quick_ctx) (quick_frames ! 0) \<and>
   switch_accepted quick_ctx (hd_state 1117.248 2 (Some (1440, 540)) 0 2) (quick_frames ! 2) \<and>
   min_switch_frames (args quick_ctx) = 2 \<and>
   min_switch_frames (args quick_ctx) \<le> frames_since_switch (hd_state 1117.248 2 (Some (1440, 540)) 0 2) \<and>
   frames_since_switch (hd_state 986.34336 3 (Some (390, 540)) 1 1) = 0 + 1 \<and>
   min_switch_frames (args quick_ctx) \<le> int (2 - 0)"
proof -
  have n2: "quick_frames ! 2 = hd_frame [(100, 150, 60, 60)]"
    and n0: "quick_frames ! 0 = hd_frame [(450, 150, 60, 60)]"
    and len: "2 < length quick_frames"
    by (simp_all add: quick_frames_def)
  have r0: "frame_loop quick_ctx (initial_state quick_ctx) (take 0 quick_frames) =
              Inr (initial_state quick_ctx, [])"
    by simp
  have p2: "process_frame quick_ctx (hd_state 1117.248 2 (Some (1440, 540)) 0 2) (quick_frames ! 2) =
              Inr (hd_state 986.34336 3 (Some (390, 540)) 1 1, (682, 0))"
    unfolding n2 by (rule quick_step2)
  have a0: "switch_accepted quick_ctx (initial_state quick_ctx) (quick_frames ! 0)"
    unfolding n0 by (rule quick_accept0)
  have a2: "switch_accepted quick_ctx (hd_state 1117.248 2 (Some (1440, 540)) 0 2) (quick_frames ! 2)"
    unfolding n2 by (rule quick_accept2)
  have m: "min_switch_frames (args quick_ctx) = 2"
    by (simp add: quick_ctx_def)
  note t = switch_rate_limited [OF quick_run2 len p2]
  from t a2 have "min_switch_frames (args quick_ctx)
                    \<le> frames_since_switch (hd_state 1117.248 2 (Some (1440, 540)) 0 2)"
    by blast
  moreover from t a2 have "frames_since_switch (hd_state 986.34336 3 (Some (390, 540)) 1 1) = 0 + 1"
    by simp
  moreover from t r0 a0 a2 have "min_switch_frames (args quick_ctx) \<le> int (2 - 0)"
    by (metis zero_less_numeral)
  ultimately show ?thesis using quick_run2 len p2 r0 a0 a2 m by blast
qed

text \<open>
  C5. On a frame where the smoothed centre is updated (there is a tracked target
  \<open>(tx, ty)\<close> when the smoothing runs), when the pan speed \<open>max_move_px_per_sec\<close> is not
  negative, and for each axis: if the distance between the target and the smoothed centre on
  that axis is strictly below \<open>deadzone_px\<close>, the smoothed centre keeps its value on that
  axis.
\<close>

theorem deadzone_keeps_center:
  assumes "process_frame c s fr = Inr (s', org)"
      and "last_det s' = Some (tx, ty)"
      and "0 \<le> max_move_px_per_sec (args c)"
  shows "(\<bar>tx - cx_s s\<bar> < real_of_int (deadzone_px (args c)) \<longrightarrow> cx_s s' = cx_s s) \<and>
         (\<bar>ty - cy_s s\<bar> < real_of_int (deadzone_px (args c)) \<longrightarrow> cy_s s' = cy_s s)"
proof -
  from assms(1) obtain s1 where t: "track_update c s fr = Inr s1"
    and s': "s' = (smooth_update c s1)\<lparr>prev_gray_full := Some (gray fr),
                 frame_idx := frame_idx s1 + 1,
                 frames_since_switch := frames_since_switch s1 + 1\<rparr>"
    by (rule process_frame_Inr)
  from t have pos: "cx_s s1 = cx_s s" "cy_s s1 = cy_s s"
    by (auto simp: track_update_def Let_def split: if_splits sum.splits)
  from s' assms(2) have "last_det s1 = Some (tx, ty)" by simp
  then have "cx_s s' = smooth_axis c (cx_s s) tx" "cy_s s' = smooth_axis c (cy_s s) ty"
    using s' pos by (simp_all add: smooth_update_def)
  then show ?thesis by (simp add: smooth_axis_unclamped [OF assms(3)])
qed

theorem deadzone_keeps_center_witness:
  "process_frame hd_ctx (initial_state hd_ctx) (hd_frame [(450, 157, 60, 60)]) =
     Inr (hd_state 1046.4 1 (Some (1440, 561)) 24 1, (742, 0)) \<and>
   last_det (hd_state 1046.4 1 (Some (1440, 561)) 24 1) = Some (1440, 561) \<and>
   0 \<le> max_move_px_per_sec (args hd_ctx) \<and>
   561 - cy_s (initial_state hd_ctx) = 21 \<and>
   \<bar>561 - cy_s (initial_state hd_ctx)\<bar> < real_of_int (deadzone_px (args hd_ctx)) \<and>
   cy_s (hd_state 1046.4 1 (Some (1440, 561)) 24 1) = cy_s (initial_state hd_ctx)"
proof -
  have l: "last_det (hd_state 1046.4 1 (Some (1440, 561)) 24 1) = Some (1440, 561)"
    by (simp add: hd_state_def)
  have m: "0 \<le> max_move_px_per_sec (args hd_ctx)"
    by (simp add: hd_ctx_def default_params_def)
  have e: "561 - cy_s (initial_state hd_ctx) = 21"
    by (simp add: hd_ctx_def initial_state_def)
  have d: "\<bar>561 - cy_s (initial_state hd_ctx)\<bar> < real_of_int (deadzone_px (args hd_ctx))"
    by (simp add: hd_ctx_def default_params_def initial_state_def)
  from deadzone_keeps_center [OF hd_step0_low l m] d
  have "cy_s (hd_state 1046.4 1 (Some (1440, 561)) 24 1) = cy_s (initial_state hd_ctx)"
    by blast
  with hd_step0_low l m e d show ?thesis by (intro conjI)
qed

text \<open>
  The condition on the pan speed cannot be left out. With \<open>max_move_px_per_sec = -30\<close> and
  the other arguments at their defaults, on a 1920x1080 clip at 30 frames per second whose
  first frame has a face centred at \<open>(1440, 561)\<close>, the vertical distance to the smoothed
  centre 540 is 21, below the deadzone of 28, and the frame moves the smoothed centre from
  540 to 539: \<^verbatim>\<open>np.clip\<close> is called with a lower bound above the upper bound and returns
  the upper bound, one pixel under the value it was given.
\<close>

theorem deadzone_fails_for_negative_speed:
  "clip_setup ((default_params ''face'')\<lparr>max_move_px_per_sec := - 30\<rparr>)
     (hd_clip (Inl ''no audio'') [hd_frame [(450, 157, 60, 60)]]) = Inr neg_move_ctx \<and>
   process_frame neg_move_ctx (initial_state neg_move_ctx) (hd_frame [(450, 157, 60, 60)]) =
     Inr (\<lparr>cx_s = 1045.4, cy_s = 539, frame_idx = 1, last_det = Some (1440, 561), hold = 24,
           frames_since_switch = 1,
           prev_gray_full = Some (replicate 1080 (replicate 1920 0))\<rparr>, (741, 0)) \<and>
   cy_s (initial_state neg_move_ctx) = 540 \<and>
   \<bar>561 - cy_s (initial_state neg_move_ctx)\<bar> < real_of_int (deadzone_px (args neg_move_ctx)) \<and>
   (539 :: real) \<noteq> cy_s (initial_state neg_move_ctx)"
proof -
  have "cy_s (initial_state neg_move_ctx) = 540"
    and "\<bar>561 - cy_s (initial_state neg_move_ctx)\<bar> < real_of_int (deadzone_px (args neg_move_ctx))"
    and "(539 :: real) \<noteq> cy_s (initial_state neg_move_ctx)"
    by (simp_all add: neg_move_ctx_def hd_ctx_def default_params_def initial_state_def)
  with neg_move_setup neg_move_step0 show ?thesis by (intro conjI)
qed

text \<open>
  C8. In a run from the initial state, when the hold duration \<open>hold_frames\<close> is not
  negative: on a frame that is not sampled \<open>hold\<close> keeps its value; on a sampled frame with
  an accepted switch it becomes \<open>hold_frames\<close>; on a sampled frame without an accepted
  switch it becomes \<open>max 0 (hold - 1)\<close>.
\<close>

theorem hold_changes_on_samples_only:
  assumes "frame_loop c (initial_state c) frs = Inr (s, origins)"
      and "process_frame c s fr = Inr (s', org)"
      and "0 \<le> hold_frames (args c)"
  shows "(int (frame_idx s) mod step c \<noteq> 0 \<longrightarrow> hold s' = hold s) \<and>
         (int (frame_idx s) mod step c = 0 \<and> switch_accepted c s fr
            \<longrightarrow> hold s' = hold_frames (args c)) \<and>
         (int (frame_idx s) mod step c = 0 \<and> \<not> switch_accepted c s fr
            \<longrightarrow> hold s' = max 0 (hold s - 1))"
proof -
  have "0 \<le> hold s"
    using hold_nonneg_run [OF assms(1) assms(3)] by (simp add: initial_state_def)
  moreover have "switch_accepted c s fr \<Longrightarrow> int (frame_idx s) mod step c = 0"
    by (simp add: switch_accepted_def)
  ultimately show ?thesis using hold_step [OF assms(2)] by auto
qed

theorem hold_changes_on_samples_only_witness:
  "frame_loop quick_ctx (initial_state quick_ctx) [hd_frame [(450, 150, 60, 60)]] =
     Inr (hd_state 1046.4 1 (Some (1440, 540)) 1 1, [(742, 0)]) \<and>
   process_frame quick_ctx (hd_state 1046.4 1 (Some (1440, 540)) 1 1) (hd_frame []) =
     Inr (hd_state 1117.248 2 (Some (1440, 540)) 0 2, (813, 0)) \<and>
   0 \<le> hold_frames (args quick_ctx) \<and>
   int (frame_idx (hd_state 1046.4 1 (Some (1440, 540)) 1 1)) mod step quick_ctx = 0 \<and>
   \<not> switch_accepted quick_ctx (hd_state 1046.4 1 (Some (1440, 540)) 1 1) (hd_frame []) \<and>
   hold (hd_state 1117.248 2 (Some (1440, 540)) 0 2) =
     max 0 (hold (hd_state 1046.4 1 (Some (1440, 540)) 1 1) - 1) \<and>
   frame_loop quick_ctx (initial_state quick_ctx) (take 2 quick_frames) =
     Inr (hd_state 1117.248 2 (Some (1440, 540)) 0 2, [(742, 0), (813, 0)]) \<and>
   process_frame quick_ctx (hd_state 1117.248 2 (Some (1440, 540)) 0 2)
     (hd_frame [(100, 150, 60, 60)]) =
     Inr (hd_state 986.34336 3 (Some (390, 540)) 1 1, (682, 0)) \<and>
   int (frame_idx (hd_state 1117.248 2 (Some (1440, 540)) 0 2)) mod step quick_ctx = 0 \<and>
   switch_accepted quick_ctx (hd_state 1117.248 2 (Some (1440, 540)) 0 2)
     (hd_frame [(100, 150, 60, 60)]) \<and>
   hold (hd_state 986.34336 3 (Some (390, 540)) 1 1) = hold_frames (args quick_ctx) \<and>
   frame_loop hd_ctx (initial_state hd_ctx) [hd_frame [(450, 150, 60, 60)]] =
     Inr (hd_state 1046.4 1 (Some (1440, 540)) 24 1, [(742, 0)]) \<and>
   process_frame hd_ctx (hd_state 1046.4 1 (Some (1440, 540)) 24 1) (hd_frame []) =
     Inr (hd_state 1117.248 2 (Some (1440, 540)) 24 2, (813, 0)) \<and>
   0 \<le> hold_frames (args hd_ctx) \<and>
   int (frame_idx (hd_state 1046.4 1 (Some (1440, 540)) 24 1)) mod step hd_ctx = 1 \<and>
   hold (hd_state 1117.248 2 (Some (1440, 540)) 24 2) =
     hold (hd_state 1046.4 1 (Some (1440, 540)) 24 1)"
proof -
  have h: "0 \<le> hold_frames (args quick_ctx)" and hh: "0 \<le> hold_frames (args hd_ctx)"
    by (simp_all add: quick_ctx_def hd_ctx_def default_params_def)
  have m1: "int (frame_idx (hd_state 1046.4 1 (Some (1440, 540)) 1 1)) mod step quick_ctx = 0"
    and m2: "int (frame_idx (hd_state 1117.248 2 (Some (1440, 540)) 0 2)) mod step quick_ctx = 0"
    and m3: "int (frame_idx (hd_state 1046.4 1 (Some (1440, 540)) 24 1)) mod step hd_ctx = 1"
    by (simp_all add: quick_ctx_def hd_ctx_def hd_state_def)
  have n: "\<not> switch_accepted quick_ctx (hd_state 1046.4 1 (Some (1440, 540)) 1 1) (hd_frame [])"
    by (simp add: eval_defs)
  from hold_changes_on_samples_only [OF quick_run1 quick_step1 h] m1 n
  have a: "hold (hd_state 1117.248 2 (Some (1440, 540)) 0 2) =
          max 0 (hold (hd_state 1046.4 1 (Some (1440, 540)) 1 1) - 1)"
    by blast
  from hold_changes_on_samples_only [OF quick_run2 quick_step2 h] m2 quick_accept2
  have b: "hold (hd_state 986.34336 3 (Some (390, 540)) 1 1) = hold_frames (args quick_ctx)"
    by blast
  from m3 have m3': "int (frame_idx (hd_state 1046.4 1 (Some (1440, 540)) 24 1)) mod step hd_ctx \<noteq> 0"
    by simp
  from hold_changes_on_samples_only [OF hd_run1 hd_step1 hh] m3'
  have c: "hold (hd_state 1117.248 2 (Some (1440, 540)) 24 2) =
             hold (hd_state 1046.4 1 (Some (1440, 540)) 24 1)"
    by blast
  from quick_run1 quick_step1 h m1 n a quick_run2 quick_step2 m2 quick_accept2 b
    hd_run1 hd_step1 hh m3 c
  show ?thesis by (intro conjI)
qed

text \<open>
  The condition on the hold duration cannot be left out. With \<open>hold_frames = -5\<close>, every
  frame sampled and the other arguments at their defaults, the first frame of a 1920x1080
  clip accepts a face and sets \<open>hold\<close> to -5; the second frame is sampled, has a detection
  and a picked candidate, and the switch is not accepted because only one frame has passed
  since the last one: \<open>hold\<close> stays -5, where \<open>max 0 (hold - 1)\<close> is 0.
\<close>

theorem hold_stays_negative:
  "clip_setup ((default_params ''face'')\<lparr>sample_fps := 30, hold_frames := - 5\<rparr>)
     (hd_clip (Inl ''no audio'') [hd_frame [(450, 150, 60, 60)], hd_frame [(450, 150, 60, 60)]]) =
     Inr neg_hold_ctx \<and>
   frame_loop neg_hold_ctx (initial_state neg_hold_ctx) [hd_frame [(450, 150, 60, 60)]] =
     Inr (hd_state 1046.4 1 (Some (1440, 540)) (- 5) 1, [(742, 0)]) \<and>
   process_frame neg_hold_ctx (hd_state 1046.4 1 (Some (1440, 540)) (- 5) 1)
     (hd_frame [(450, 150, 60, 60)]) =
     Inr (hd_state 1117.248 2 (Some (1440, 540)) (- 5) 2, (813, 0)) \<and>
   int (frame_idx (hd_state 1046.4 1 (Some (1440, 540)) (- 5) 1)) mod step neg_hold_ctx = 0 \<and>
   \<not> switch_accepted neg_hold_ctx (hd_state 1046.4 1 (Some (1440, 540)) (- 5) 1)
       (hd_frame [(450, 150, 60, 60)]) \<and>
   hold (hd_state 1117.248 2 (Some (1440, 540)) (- 5) 2) = - 5 \<and>
   max 0 (hold (hd_state 1046.4 1 (Some (1440, 540)) (- 5) 1) - 1) = 0 \<and>
   hold (hd_state 1117.248 2 (Some (1440, 540)) (- 5) 2)
     \<noteq> max 0 (hold (hd_state 1046.4 1 (Some (1440, 540)) (- 5) 1) - 1)"
proof -
  have first: "frame_loop neg_hold_ctx (initial_state neg_hold_ctx) [hd_frame [(450, 150, 60, 60)]] =
               Inr (hd_state 1046.4 1 (Some (1440, 540)) (- 5) 1, [(742, 0)])"
    by (simp only: frame_loop.simps neg_hold_step0 sum.case prod.case)
  have "int (frame_idx (hd_state 1046.4 1 (Some (1440, 540)) (- 5) 1)) mod step neg_hold_ctx = 0"
    and "hold (hd_state 1117.248 2 (Some (1440, 540)) (- 5) 2) = - 5"
    and "max 0 (hold (hd_state 1046.4 1 (Some (1440, 540)) (- 5) 1) - 1) = 0"
    and "hold (hd_state 1117.248 2 (Some (1440, 540)) (- 5) 2)
           \<noteq> max 0 (hold (hd_state 1046.4 1 (Some (1440, 540)) (- 5) 1) - 1)"
    by (simp_all add: neg_hold_ctx_def hd_state_def)
  with neg_hold_setup first neg_hold_step1 neg_hold_reject1 show ?thesis by (intro conjI)
qed

text \<open>
  C9. Once there is a tracked target \<open>(tx, ty)\<close>, every later state of the loop has one;
  frames without detections leave it exactly as it was, whatever the hold counter is; and on
  such a frame the smoothed centre is updated towards that same target, not towards the
  centre of the frame.
\<close>

theorem tracked_target_never_lost:
  assumes "frame_loop c s frs = Inr (s', origins)" and "last_det s = Some (tx, ty)"
  shows "last_det s' \<noteq> None \<and>
         ((\<forall>fr \<in> set frs. faces_detect c fr = []) \<longrightarrow> last_det s' = Some (tx, ty)) \<and>
         (\<forall>fr s1 o1. process_frame c s fr = Inr (s1, o1) \<and> faces_detect c fr = [] \<longrightarrow>
            last_det s1 = Some (tx, ty) \<and>
            cx_s s1 = smooth_axis c (cx_s s) tx \<and> cy_s s1 = smooth_axis c (cy_s s) ty)"
proof -
  from last_det_run [OF assms(1)] assms(2)
  have "last_det s' \<noteq> None"
    and "(\<forall>fr \<in> set frs. faces_detect c fr = []) \<longrightarrow> last_det s' = Some (tx, ty)"
    by simp_all
  moreover have "last_det s1 = Some (tx, ty) \<and>
      cx_s s1 = smooth_axis c (cx_s s) tx \<and> cy_s s1 = smooth_axis c (cy_s s) ty"
    if "process_frame c s fr = Inr (s1, o1)" "faces_detect c fr = []" for fr s1 o1
    using no_detection_step [OF that assms(2)] .
  ultimately show ?thesis by blast
qed

theorem tracked_target_never_lost_witness:
  "frame_loop quick_ctx (hd_state 1046.4 1 (Some (1440, 540)) 1 1) [hd_frame []] =
     Inr (hd_state 1117.248 2 (Some (1440, 540)) 0 2, [(813, 0)]) \<and>
   last_det (hd_state 1046.4 1 (Some (1440, 540)) 1 1) = Some (1440, 540) \<and>
   faces_detect quick_ctx (hd_frame []) = [] \<and>
   hold (hd_state 1117.248 2 (Some (1440, 540)) 0 2) = 0 \<and>
   last_det (hd_state 1117.248 2 (Some (1440, 540)) 0 2) \<noteq> None \<and>
   last_det (hd_state 1117.248 2 (Some (1440, 540)) 0 2) = Some (1440, 540)"
proof -
  have r: "frame_loop quick_ctx (hd_state 1046.4 1 (Some (1440, 540)) 1 1) [hd_frame []] =
             Inr (hd_state 1117.248 2 (Some (1440, 540)) 0 2, [(813, 0)])"
    by (simp only: frame_loop.simps quick_step1 sum.case prod.case)
  have l: "last_det (hd_state 1046.4 1 (Some (1440, 540)) 1 1) = Some (1440, 540)"
    by (simp add: hd_state_def)
  have f: "faces_detect quick_ctx (hd_frame []) = []"
    by (simp add: eval_defs)
  have h: "hold (hd_state 1117.248 2 (Some (1440, 540)) 0 2) = 0"
    by (simp add: hd_state_def)
  from tracked_target_never_lost [OF r l] f
  have "last_det (hd_state 1117.248 2 (Some (1440, 540)) 0 2) \<noteq> None \<and>
        last_det (hd_state 1117.248 2 (Some (1440, 540)) 0 2) = Some (1440, 540)"
    by simp
  with r l f h show ?thesis by blast
qed

text \<open>
  C1 (as the code behaves). With the default arguments on a 1920x1080 clip at 30 frames per
  second, a face detected on the first frame with centre (1440, 540) moves the smoothed centre
  from 960 to 1046.4 on the x axis in that one frame: 86.4 pixels, while
  \<open>max_move_px_per_sec / fps\<close> is 32/3. The clamp of lines 481-483 is taken around the
  value it clamps, so it changes nothing (lemma \<open>smooth_axis_unclamped\<close>).
\<close>

theorem pan_speed_clamp_not_applied:
  "clip_setup (default_params ''face'')
     (hd_clip (Inl ''no audio'') [hd_frame [(450, 150, 60, 60)]]) = Inr hd_ctx \<and>
   process_frame hd_ctx (initial_state hd_ctx) (hd_frame [(450, 150, 60, 60)]) =
     Inr (hd_state 1046.4 1 (Some (1440, 540)) 24 1, (742, 0)) \<and>
   cx_s (hd_state 1046.4 1 (Some (1440, 540)) 24 1) - cx_s (initial_state hd_ctx) = 86.4 \<and>
   real_of_int (max_move_px_per_sec (args hd_ctx)) / fps hd_ctx = 32 / 3 \<and>
   \<not> \<bar>cx_s (hd_state 1046.4 1 (Some (1440, 540)) 24 1) - cx_s (initial_state hd_ctx)\<bar>
       \<le> real_of_int (max_move_px_per_sec (args hd_ctx)) / fps hd_ctx"
proof -
  have "cx_s (hd_state 1046.4 1 (Some (1440, 540)) 24 1) - cx_s (initial_state hd_ctx) = 86.4"
    by (simp add: hd_state_def initial_state_def hd_ctx_def)
  moreover have "real_of_int (max_move_px_per_sec (args hd_ctx)) / fps hd_ctx = 32 / 3"
    by (simp add: hd_ctx_def default_params_def)
  ultimately show ?thesis using hd_setup hd_step0 by simp
qed

subsection \<open>Audio\<close>

text \<open>
  C7. When the function is called in speaker mode and the way to the audio signal raises an
  exception, the exception goes no further and the run is the run of face mode: the set-up
  is that of the call with mode "face", the context it gives has mode "face" and neither
  signal nor threshold, and the result of the whole function is the result of the call with
  mode "face", which is the same whatever audio extraction delivers. (Whether a run in face
  mode reaches its end depends on calls that are not modelled; that is not stated here.)
\<close>

theorem speaker_degrades_to_face:
  assumes "mode p = ''speaker''" and "audio env = Inl e"
  shows "clip_setup p env = clip_setup (p\<lparr>mode := ''face''\<rparr>) env \<and>
         smart_follow_crop p env = smart_follow_crop (p\<lparr>mode := ''face''\<rparr>) env \<and>
         (\<forall>a. smart_follow_crop p env =
                 smart_follow_crop (p\<lparr>mode := ''face''\<rparr>) (env\<lparr>audio := a\<rparr>)) \<and>
         (\<forall>c. clip_setup p env = Inr c
               \<longrightarrow> mode (args c) = ''face'' \<and> rms c = None \<and> thr c = None)"
proof -
  have su: "clip_setup p env = clip_setup (p\<lparr>mode := ''face''\<rparr>) env"
    by (rule clip_setup_degrade [OF assms])
  then have same: "smart_follow_crop p env = smart_follow_crop (p\<lparr>mode := ''face''\<rparr>) env"
    by (simp add: smart_follow_crop_def)
  then have any: "smart_follow_crop p env =
                    smart_follow_crop (p\<lparr>mode := ''face''\<rparr>) (env\<lparr>audio := a\<rparr>)" for a
    by (simp only: face_run_ignores_audio)
  have face: "mode (args c) = ''face'' \<and> rms c = None \<and> thr c = None"
    if "clip_setup p env = Inr c" for c
  proof -
    have "audio_setup (mode p) (audio env) f = (''face'', None, None)" for f
      using assms by (simp add: audio_setup_def)
    with clip_setup_fields(6) [OF that] show ?thesis by simp
  qed
  from su same any face show ?thesis by blast
qed

theorem speaker_degrades_to_face_witness:
  "mode (default_params ''speaker'') = ''speaker'' \<and>
   audio (hd_clip (Inl ''ffmpeg failed'') [hd_frame [(450, 150, 60, 60)]]) = Inl ''ffmpeg failed'' \<and>
   clip_setup (default_params ''speaker'')
     (hd_clip (Inl ''ffmpeg failed'') [hd_frame [(450, 150, 60, 60)]]) = Inr hd_ctx \<and>
   clip_setup ((default_params ''speaker'')\<lparr>mode := ''face''\<rparr>)
     (hd_clip (Inl ''ffmpeg failed'') [hd_frame [(450, 150, 60, 60)]]) = Inr hd_ctx \<and>
   mode (args hd_ctx) = ''face'' \<and> rms hd_ctx = None \<and> thr hd_ctx = None \<and>
   smart_follow_crop (default_params ''speaker'')
     (hd_clip (Inl ''ffmpeg failed'') [hd_frame [(450, 150, 60, 60)]]) = Inr [(742, 0)] \<and>
   smart_follow_crop ((default_params ''speaker'')\<lparr>mode := ''face''\<rparr>)
     (hd_clip (Inl ''ffmpeg failed'') [hd_frame [(450, 150, 60, 60)]]) = Inr [(742, 0)]"
proof -
  let ?env = "hd_clip (Inl ''ffmpeg failed'') [hd_frame [(450, 150, 60, 60)]]"
  have m: "mode (default_params ''speaker'') = ''speaker''"
    by (simp add: default_params_def)
  have a: "audio ?env = Inl ''ffmpeg failed''"
    by (simp add: hd_clip_def)
  have fr: "cap_frames ?env = [hd_frame [(450, 150, 60, 60)]]" and mx: "mux_error ?env = None"
    by (simp_all add: hd_clip_def)
  have s: "clip_setup (default_params ''speaker'') ?env = Inr hd_ctx"
    by (rule hd_setup_speaker)
  have r: "smart_follow_crop (default_params ''speaker'') ?env = Inr [(742, 0)]"
    by (simp only: smart_follow_crop_def s fr mx hd_run1 sum.case prod.case option.case)
  note t = speaker_degrades_to_face [OF m a]
  from t [THEN conjunct1] s
  have s': "clip_setup ((default_params ''speaker'')\<lparr>mode := ''face''\<rparr>) ?env = Inr hd_ctx"
    by simp
  from t [THEN conjunct2, THEN conjunct2, THEN conjunct2, rule_format, OF s]
  have f: "mode (args hd_ctx) = ''face''" "rms hd_ctx = None" "thr hd_ctx = None"
    by simp_all
  from t [THEN conjunct2, THEN conjunct1] r
  have r': "smart_follow_crop ((default_params ''speaker'')\<lparr>mode := ''face''\<rparr>) ?env =
              Inr [(742, 0)]"
    by simp
  from m a s s' f r r' show ?thesis by (intro conjI)
qed

text \<open>
  C10. The RMS signal the loader returns is never empty. For a signal that is not empty the
  index \<open>min (length r - 1) frame_idx\<close> lies inside it, so the lookup yields the value at
  that position and no IndexError; in speaker mode the score of a box is computed with the
  voice-activity test at exactly that index; and no run of the whole function ends in an
  IndexError.
\<close>

theorem audio_lookup_in_bounds:
  "load_wav_rms_per_frame wav_file f \<noteq> [] \<and>
   (r \<noteq> [] \<longrightarrow>
      0 \<le> min (int (length r) - 1) (int n) \<and>
      min (int (length r) - 1) (int n) < int (length r) \<and>
      py_index r (min (int (length r) - 1) (int n)) = Inr (r ! min (length r - 1) n)) \<and>
   (mode (args c) = ''speaker'' \<and> rms c = Some r \<and> thr c = Some t \<and> r \<noteq> [] \<longrightarrow>
      face_score c s g (x, y, w, h) =
        Inr (mouth_motion_score c g (prev_gray_full s) (x, y, w, h)
               * (if r ! min (length r - 1) (frame_idx s) \<ge> t then 8 else 2)
             + w * h * 0.00002
             - 0.0008 * ((x + w / 2 - cx_s s)\<^sup>2 + (y + h / 2 - cy_s s)\<^sup>2))) \<and>
   smart_follow_crop p env \<noteq> Inl IndexError"
proof (intro conjI impI)
  show "load_wav_rms_per_frame wav_file f \<noteq> []"
    by (rule load_wav_rms_nonempty)
next
  assume "r \<noteq> []"
  then show "0 \<le> min (int (length r) - 1) (int n)"
    and "min (int (length r) - 1) (int n) < int (length r)"
    and "py_index r (min (int (length r) - 1) (int n)) = Inr (r ! min (length r - 1) n)"
    using rms_lookup [of r n] by simp_all
next
  assume "mode (args c) = ''speaker'' \<and> rms c = Some r \<and> thr c = Some t \<and> r \<noteq> []"
  then have "mode (args c) = ''speaker''" "rms c = Some r" "thr c = Some t" "r \<noteq> []"
    by simp_all
  from face_score_speaker [OF this, unfolded voiced_def]
  show "face_score c s g (x, y, w, h) =
        Inr (mouth_motion_score c g (prev_gray_full s) (x, y, w, h)
               * (if r ! min (length r - 1) (frame_idx s) \<ge> t then 8 else 2)
             + w * h * 0.00002
             - 0.0008 * ((x + w / 2 - cx_s s)\<^sup>2 + (y + h / 2 - cy_s s)\<^sup>2))" .
next
  show "smart_follow_crop p env \<noteq> Inl IndexError"
    by (rule smart_follow_crop_no_IndexError)
qed

theorem audio_lookup_in_bounds_witness:
  "[0.01, 0.05 :: real] \<noteq> [] \<and>
   min (int (length [0.01, 0.05 :: real]) - 1) (int 6) = 1 \<and>
   py_index [0.01, 0.05 :: real] (min (int (length [0.01, 0.05 :: real]) - 1) (int 6)) = Inr 0.05 \<and>
   mode (args tiny_ctx) = ''speaker'' \<and> rms tiny_ctx = Some [0.01, 0.05] \<and>
   thr tiny_ctx = Some 0.0775 \<and> frame_idx tiny_state = 6 \<and>
   face_score tiny_ctx tiny_state tiny_lit (4, 4, 4, 4) = Inr 19.99392"
proof -
  have ne: "[0.01, 0.05 :: real] \<noteq> []" by simp
  have i: "min (int (length [0.01, 0.05 :: real]) - 1) (int 6) = 1" by simp
  have v: "[0.01, 0.05 :: real] ! min (length [0.01, 0.05 :: real] - 1) 6 = 0.05" by simp
  have m: "mode (args tiny_ctx) = ''speaker''" and r: "rms tiny_ctx = Some [0.01, 0.05]"
    and t: "thr tiny_ctx = Some 0.0775" and n: "frame_idx tiny_state = 6"
    and xy: "cx_s tiny_state = 4" "cy_s tiny_state = 4"
    by (simp_all add: tiny_defs)
  note a = audio_lookup_in_bounds [of _ _ "[0.01, 0.05]" 6 tiny_ctx "0.0775" tiny_state tiny_lit
      4 4 4 4]
  from a [THEN conjunct2, THEN conjunct1, rule_format, OF ne]
  have "py_index [0.01, 0.05 :: real] (min (int (length [0.01, 0.05 :: real]) - 1) (int 6)) =
          Inr ([0.01, 0.05] ! min (length [0.01, 0.05 :: real] - 1) 6)"
    by (elim conjE)
  then have look: "py_index [0.01, 0.05 :: real]
                     (min (int (length [0.01, 0.05 :: real]) - 1) (int 6)) = Inr 0.05"
    by (simp only: v)
  from m r t ne have "mode (args tiny_ctx) = ''speaker'' \<and> rms tiny_ctx = Some [0.01, 0.05] \<and>
      thr tiny_ctx = Some 0.0775 \<and> [0.01, 0.05 :: real] \<noteq> []"
    by (intro conjI)
  from a [THEN conjunct2, THEN conjunct2, THEN conjunct1, rule_format, OF this]
  have "face_score tiny_ctx tiny_state tiny_lit (4, 4, 4, 4) = Inr 19.99392"
    unfolding tiny_mouth_motion n v xy by (simp add: power2_eq_square)
  with ne i look m r t n show ?thesis by (intro conjI)
qed

subsection \<open>Candidate scorer\<close>




end
